theory Spec2Isabelle
  imports Complex_Main "HOL-Library.Sublist"
begin

section \<open>Python values, dictionaries and exceptions\<close>

text \<open>
  The two scripts of the study (\<^verbatim>\<open>001_make_folders.py\<close>, the tree generator, and
  \<^verbatim>\<open>1_build_distr_and_collider.py\<close>, the job of the first generation) work on nested
  Python dictionaries that are written to and read from YAML. A value is modelled by
  \<open>pyval\<close>. A dictionary is an association list in insertion order, as Python keeps it:
  the order of the \<^verbatim>\<open>xtrack_NNNN\<close> children is the order of their creation.
  A floating-point number is given by a rational, the number as Python prints it. The
  arithmetic of the script on such numbers is done by Python in IEEE doubles; it is not
  computed here but taken as a parameter (\<open>double_arith\<close> below), so that what is proved
  holds whatever the doubles give.
\<close>

datatype pyval =
    PNone
  | PBool bool
  | PInt int
  | PFloat rat
  | PStr string
  | PList "pyval list"
  | PDict "(string \<times> pyval) list"

datatype error =
    KeyError string
  | TypeError
  | ValueError
  | EOFError
  | NotImplementedError
  | FileNotFoundError
  | FileExistsError
  | NotADirectoryError
  | AttributeError
  | ZeroDivisionError
  | ExternalError string

text \<open>A raised exception ends the script: \<open>Inl\<close> is propagated by \<open>and_then\<close>.\<close>

definition and_then :: "error + 'a \<Rightarrow> ('a \<Rightarrow> error + 'b) \<Rightarrow> error + 'b" where
  "and_then m f = (case m of Inl e \<Rightarrow> Inl e | Inr x \<Rightarrow> f x)"

text \<open>\<^verbatim>\<open>d[k] = v\<close> on a dictionary: an existing key keeps its place, a new key goes last.\<close>

fun dict_set :: "string \<Rightarrow> pyval \<Rightarrow> (string \<times> pyval) list \<Rightarrow> (string \<times> pyval) list" where
  "dict_set k v [] = [(k, v)]"
| "dict_set k v ((k', v') # d) =
     (if k = k' then (k, v) # d else (k', v') # dict_set k v d)"

text \<open>\<^verbatim>\<open>d[k]\<close> with a string key: \<^verbatim>\<open>KeyError\<close> on a missing key, \<^verbatim>\<open>TypeError\<close>
  on a value that is no dictionary.\<close>

fun getitem :: "pyval \<Rightarrow> string \<Rightarrow> error + pyval" where
  "getitem (PDict d) k = (case map_of d k of None \<Rightarrow> Inl (KeyError k) | Some v \<Rightarrow> Inr v)"
| "getitem _ k = Inl TypeError"

fun setitem :: "pyval \<Rightarrow> string \<Rightarrow> pyval \<Rightarrow> error + pyval" where
  "setitem (PDict d) k v = Inr (PDict (dict_set k v d))"
| "setitem _ k v = Inl TypeError"

text \<open>\<^verbatim>\<open>d[k1][k2]...[kn]\<close>.\<close>

fun getpath :: "pyval \<Rightarrow> string list \<Rightarrow> error + pyval" where
  "getpath d [] = Inr d"
| "getpath d (k # ks) = and_then (getitem d k) (\<lambda>sub. getpath sub ks)"

text \<open>
  \<^verbatim>\<open>d[k1][k2]...[kn] = v\<close>. Python evaluates \<^verbatim>\<open>d[k1]...\<close> to the inner dictionary object and
  stores into it; every holder of that object sees the change. With values instead of
  references this is the update of the inner dictionary written back along the path.
\<close>

fun setpath :: "pyval \<Rightarrow> string list \<Rightarrow> pyval \<Rightarrow> error + pyval" where
  "setpath d [] v = Inr v"
| "setpath d [k] v = setitem d k v"
| "setpath d (k # ks) v =
     and_then (getitem d k) (\<lambda>sub.
     and_then (setpath sub ks v) (\<lambda>sub'.
     setitem d k sub'))"

text \<open>A run of assignments \<^verbatim>\<open>d[path] = v\<close>, in order, stopping at the first exception.\<close>

fun assign_paths :: "pyval \<Rightarrow> (string list \<times> pyval) list \<Rightarrow> error + pyval" where
  "assign_paths d [] = Inr d"
| "assign_paths d ((p, v) # rest) = and_then (setpath d p v) (\<lambda>d'. assign_paths d' rest)"

section \<open>Formatting\<close>

text \<open>\<^verbatim>\<open>f"{n:04}"\<close> and \<^verbatim>\<open>f"{n:02}"\<close> for a non-negative integer: its decimal digits,
  padded on the left with zeros to the width (a minimum: a longer number is not cut).\<close>

definition digit_char :: "nat \<Rightarrow> char" where
  "digit_char d = ''0123456789'' ! d"

fun decimal :: "nat \<Rightarrow> string" where
  "decimal n = (if n < 10 then [digit_char n] else decimal (n div 10) @ [digit_char (n mod 10)])"

declare decimal.simps [simp del]

definition format_0w :: "nat \<Rightarrow> nat \<Rightarrow> string" where
  "format_0w w n = replicate (w - length (decimal n)) CHR ''0'' @ decimal n"

section \<open>The tree generator (001_make_folders.py)\<close>

subsection \<open>What the user sets, and what the script reads from outside\<close>

text \<open>
  The user edits the script: the number of splits of the particle distribution, the two
  tune arrays, the pruning flag and the leveling flag are the scan specification. The
  other settings are the constants of the script.
\<close>

record scan_spec =
  n_split :: int
  array_qx :: "rat list"
  array_qy :: "rat list"
  only_keep_upper_triangle :: bool
  skip_leveling_base_collider :: bool

text \<open>
  Python's arithmetic on doubles: the sum, difference, product and quotient of two
  numbers as a double, and the comparison of two doubles. No law is assumed of them.
\<close>

record double_arith =
  double_add :: "rat \<Rightarrow> rat \<Rightarrow> rat"
  double_sub :: "rat \<Rightarrow> rat \<Rightarrow> rat"
  double_mul :: "rat \<Rightarrow> rat \<Rightarrow> rat"
  double_div :: "rat \<Rightarrow> rat \<Rightarrow> rat"
  double_less :: "rat \<Rightarrow> rat \<Rightarrow> bool"

text \<open>
  The script reads lines from standard input (\<^verbatim>\<open>input()\<close>), the working directory, the
  file \<^verbatim>\<open>config.yaml\<close>, and calls \<^verbatim>\<open>get_worst_bunch\<close> of \<^verbatim>\<open>user_defined_functions\<close>
  (not part of the two scripts) and Python's \<^verbatim>\<open>int\<close> on a typed line. It computes in
  the doubles of the machine it runs on.
\<close>

record environment =
  stdin_lines :: "string list"
  getcwd :: string
  config_yaml :: pyval
  get_worst_bunch :: "string \<Rightarrow> string \<Rightarrow> error + int"
  py_int :: "string \<Rightarrow> int option"
  arith :: double_arith

subsection \<open>The tune arrays\<close>

text \<open>
  \<^verbatim>\<open>np.arange(start, stop, step)\<close> on doubles: the length is the ceiling of the double
  quotient \<^verbatim>\<open>(stop - start) / step\<close> (a zero step raises \<^verbatim>\<open>ZeroDivisionError\<close>; no element
  when the length is not positive); the first element is \<^verbatim>\<open>start\<close>, the second
  \<^verbatim>\<open>start + step\<close>, and element \<open>i\<close> is \<^verbatim>\<open>start + i * delta\<close> with \<^verbatim>\<open>delta\<close> the
  difference of the first two. \<^verbatim>\<open>np.round(x, decimals=4)\<close> multiplies by \<open>10^4\<close>, rounds
  the product to the nearest integer, a tie to the even one, and divides by \<open>10^4\<close>.
  \<^verbatim>\<open>[:n]\<close> keeps the first \<open>n\<close> elements.
\<close>

definition np_arange :: "double_arith \<Rightarrow> rat \<Rightarrow> rat \<Rightarrow> rat \<Rightarrow> error + rat list" where
  "np_arange fp start stop step =
     (if step = 0 then Inl ZeroDivisionError
      else
        (let len = nat \<lceil>double_div fp (double_sub fp stop start) step\<rceil>;
             delta = double_sub fp (double_add fp start step) start
         in Inr (map (\<lambda>i. if i = 0 then start
                           else if i = 1 then double_add fp start step
                           else double_add fp start (double_mul fp (of_nat i) delta))
                   [0..<len])))"

definition round_half_even :: "rat \<Rightarrow> int" where
  "round_half_even x =
     (let f = \<lfloor>x\<rfloor>; r = x - of_int f
      in if r < 1 / 2 then f else if 1 / 2 < r then f + 1 else if even f then f else f + 1)"

definition np_round :: "double_arith \<Rightarrow> nat \<Rightarrow> rat \<Rightarrow> rat" where
  "np_round fp decimals x =
     double_div fp (of_int (round_half_even (double_mul fp x (10 ^ decimals)))) (10 ^ decimals)"

definition tune_array :: "double_arith \<Rightarrow> rat \<Rightarrow> rat \<Rightarrow> rat \<Rightarrow> nat \<Rightarrow> error + rat list" where
  "tune_array fp start stop step n =
     and_then (np_arange fp start stop step) (\<lambda>a. Inr (take n (map (np_round fp 4) a)))"

subsection \<open>The settings of the first generation\<close>

text \<open>
  Lines 21 to 102 and 124 to 125 fill the settings dictionaries by assignments. Each
  dictionary is written here as its initial literal followed by the assignments in the
  order of the script.
\<close>

definition d_config_particles :: "scan_spec \<Rightarrow> error + pyval" where
  "d_config_particles s = assign_paths (PDict [])
     [([''r_min''], PInt 2),
      ([''r_max''], PInt 10),
      ([''n_r''], PInt (2 * 16 * (10 - 2))),
      ([''n_angles''], PInt 5),
      ([''n_split''], PInt (n_split s))]"

definition beam_energy_tot :: int where
  "beam_energy_tot = 7000"

definition d_config_mad :: "error + pyval" where
  "d_config_mad = assign_paths
     (PDict [(''beam_config'', PDict [(''lhcb1'', PDict []), (''lhcb2'', PDict [])])])
     [([''optics_file''], PStr ''acc-models-lhc/flatcc/opt_flathv_75_180_1500_thin.madx''),
      ([''beam_config'', ''lhcb1'', ''beam_energy_tot''], PInt beam_energy_tot),
      ([''beam_config'', ''lhcb2'', ''beam_energy_tot''], PInt beam_energy_tot)]"

definition d_config_tune_and_chroma :: "error + pyval" where
  "d_config_tune_and_chroma = assign_paths
     (PDict [(''qx'', PDict []), (''qy'', PDict []), (''dqx'', PDict []), (''dqy'', PDict [])])
     (concat (map (\<lambda>beam.
        [([''qx'', beam], PFloat 62.31),
         ([''qy'', beam], PFloat 60.32),
         ([''dqx'', beam], PFloat 5.0),
         ([''dqy'', beam], PFloat 5.0)]) [''lhcb1'', ''lhcb2''])
      @ [([''delta_cmr''], PFloat 0.001),
         ([''delta_cmi''], PFloat 0.0)])"

definition d_config_knobs :: "error + pyval" where
  "d_config_knobs = assign_paths (PDict [])
     [([''on_x1''], PInt 250),
      ([''on_sep1''], PInt 0),
      ([''on_x2''], PInt (- 170)),
      ([''on_sep2''], PFloat 0.138),
      ([''on_x5''], PInt 250),
      ([''on_sep5''], PInt 0),
      ([''on_x8h''], PFloat 0.0),
      ([''on_x8v''], PInt 170),
      ([''on_crab1''], PInt (- 190)),
      ([''on_crab5''], PInt (- 190)),
      ([''i_oct_b1''], PFloat 60.0),
      ([''i_oct_b2''], PFloat 60.0)]"

definition d_config_leveling :: "error + pyval" where
  "d_config_leveling = assign_paths (PDict [(''ip2'', PDict []), (''ip8'', PDict [])])
     [([''ip2'', ''separation_in_sigmas''], PInt 5),
      ([''ip8'', ''luminosity''], PFloat (2 * 10 ^ 33))]"

text \<open>
  Lines 111 to 121: when the leveling of the base collider is skipped the user confirms
  with \<^verbatim>\<open>y\<close>; any other answer raises \<^verbatim>\<open>ValueError\<close>. \<^verbatim>\<open>input()\<close> at the end of
  the input raises \<^verbatim>\<open>EOFError\<close>. The result is the input left to read.
\<close>

definition confirm_skip_leveling :: "bool \<Rightarrow> string list \<Rightarrow> error + string list" where
  "confirm_skip_leveling skip ins =
     (if skip then
        (case ins of
           [] \<Rightarrow> Inl EOFError
         | answer # rest \<Rightarrow> if answer \<noteq> ''y'' then Inl ValueError else Inr rest)
      else Inr ins)"

text \<open>\<^verbatim>\<open>os.path.abspath\<close> of a relative path with no \<^verbatim>\<open>.\<close> or \<^verbatim>\<open>..\<close> part.\<close>

definition os_path_abspath :: "string \<Rightarrow> string \<Rightarrow> string" where
  "os_path_abspath cwd p = (if cwd = ''/'' then cwd @ p else cwd @ ''/'' @ p)"

text \<open>
  Lines 167 to 179: the script asks until the answer is \<^verbatim>\<open>y\<close> (the worst bunch is taken)
  or \<^verbatim>\<open>n\<close> (the next line is read as the bunch number, \<^verbatim>\<open>int\<close> raising \<^verbatim>\<open>ValueError\<close>
  on a line that is no integer).
\<close>

fun ask_bunch_b1 :: "(string \<Rightarrow> int option) \<Rightarrow> int \<Rightarrow> string list \<Rightarrow> error + int" where
  "ask_bunch_b1 to_int worst_bunch_b1 [] = Inl EOFError"
| "ask_bunch_b1 to_int worst_bunch_b1 (bool_inp # rest) =
     (if bool_inp = ''y'' then Inr worst_bunch_b1
      else if bool_inp = ''n'' then
        (case rest of
           [] \<Rightarrow> Inl EOFError
         | line # _ \<Rightarrow> (case to_int line of None \<Rightarrow> Inl ValueError | Some n \<Rightarrow> Inr n))
      else ask_bunch_b1 to_int worst_bunch_b1 rest)"

text \<open>Lines 131 to 188: the beam-beam settings, with the bunch numbers of both beams.\<close>

definition d_config_beambeam :: "environment \<Rightarrow> string list \<Rightarrow> error + pyval" where
  "d_config_beambeam env ins =
     (let filling_scheme_path = os_path_abspath (getcwd env)
            ''master_jobs/filling_scheme/8b4e_1972b_1960_1178_1886_224bpi_12inj_800ns_bs200ns.json''
      in if suffix ''.csv'' filling_scheme_path then Inl NotImplementedError
      else
        and_then (assign_paths (PDict [(''mask_with_filling_pattern'', PDict [])])
          [([''num_particles_per_bunch''], PFloat (14 * 10 ^ 10)),
           ([''nemitt_x''], PFloat (25 / 10 ^ 7)),
           ([''nemitt_y''], PFloat (25 / 10 ^ 7)),
           ([''mask_with_filling_pattern'', ''pattern_fname''], PStr filling_scheme_path),
           ([''mask_with_filling_pattern'', ''i_bunch_b1''], PNone),
           ([''mask_with_filling_pattern'', ''i_bunch_b2''], PNone)]) (\<lambda>d.
        and_then (get_worst_bunch env filling_scheme_path ''beam_1'') (\<lambda>worst_bunch_b1.
        and_then (ask_bunch_b1 (py_int env) worst_bunch_b1 ins) (\<lambda>i_bunch_b1.
        and_then (setpath d [''mask_with_filling_pattern'', ''i_bunch_b1''] (PInt i_bunch_b1)) (\<lambda>d.
        and_then (get_worst_bunch env filling_scheme_path ''beam_2'') (\<lambda>worst_bunch_b2.
        setpath d [''mask_with_filling_pattern'', ''i_bunch_b2''] (PInt worst_bunch_b2)))))))"

text \<open>
  Lines 221 to 244: the first generation. The assignments go through
  \<^verbatim>\<open>children["base_collider"]\<close>, so the knobs end inside the tune settings and these inside
  the collider settings.
\<close>

definition first_generation :: "scan_spec \<Rightarrow> pyval \<Rightarrow> error + pyval" where
  "first_generation s beambeam =
     and_then (d_config_particles s) (\<lambda>particles.
     and_then d_config_mad (\<lambda>mad.
     and_then d_config_tune_and_chroma (\<lambda>tune_and_chroma.
     and_then d_config_knobs (\<lambda>knobs.
     and_then d_config_leveling (\<lambda>leveling.
     assign_paths
       (PDict [(''base_collider'',
          PDict [(''config_particles'', PDict []), (''config_collider'', PDict []),
                 (''children'', PDict [])])])
       [([''base_collider'', ''config_particles''], particles),
        ([''base_collider'', ''config_collider''], mad),
        ([''base_collider'', ''config_collider'', ''config_knobs_and_tuning''], tune_and_chroma),
        ([''base_collider'', ''config_collider'', ''config_knobs_and_tuning'', ''knob_settings''],
           knobs),
        ([''base_collider'', ''config_collider'', ''skip_leveling_base_collider''],
           PBool (skip_leveling_base_collider s)),
        ([''base_collider'', ''config_collider'', ''config_lumi_leveling''], leveling),
        ([''base_collider'', ''config_collider'', ''config_beambeam''], beambeam)])))))"

subsection \<open>The second generation\<close>

definition n_turns :: int where
  "n_turns = 500"

definition delta_max :: rat where
  "delta_max = 27 / 100000"

text \<open>The dictionary of one leaf (lines 265 to 272).\<close>

definition leaf :: "nat \<Rightarrow> rat \<Rightarrow> rat \<Rightarrow> pyval" where
  "leaf track qx qy = PDict
     [(''parameters_scanned'', PDict [(''group_2'', PDict [(''qx'', PFloat qx), (''qy'', PFloat qy)])]),
      (''particle_file'', PStr (''../particles/'' @ format_0w 2 track @ ''.parquet'')),
      (''collider_file'', PStr ''../collider/collider.json''),
      (''n_turns'', PInt n_turns),
      (''delta_max'', PFloat delta_max),
      (''log_file'', PStr ''tree_maker.log'')]"

definition xtrack_key :: "nat \<Rightarrow> string" where
  "xtrack_key idx_job = ''xtrack_'' @ format_0w 4 idx_job"

text \<open>The test of line 263, \<^verbatim>\<open>qy < (qx - 2 + 0.0039)\<close>, as Python computes it in doubles.\<close>

definition below_upper_diagonal :: "double_arith \<Rightarrow> rat \<Rightarrow> rat \<Rightarrow> bool" where
  "below_upper_diagonal fp qx qy =
     double_less fp qy (double_add fp (double_sub fp qx 2) 0.0039)"

text \<open>
  The loop of lines 260 to 272 over the enumerated product: a combination below the upper
  diagonal is skipped by \<^verbatim>\<open>continue\<close>, any other stores its leaf under
  \<^verbatim>\<open>children["base_collider"]["children"]\<close>.
\<close>

fun scan_loop ::
    "double_arith \<Rightarrow> bool \<Rightarrow> (nat \<times> nat \<times> rat \<times> rat) list \<Rightarrow> pyval \<Rightarrow> error + pyval" where
  "scan_loop fp tri [] children = Inr children"
| "scan_loop fp tri ((idx_job, track, qx, qy) # rest) children =
     (if tri \<and> below_upper_diagonal fp qx qy then scan_loop fp tri rest children
      else and_then
             (setpath children [''base_collider'', ''children'', xtrack_key idx_job] (leaf track qx qy))
             (scan_loop fp tri rest))"

text \<open>\<^verbatim>\<open>itertools.product(track_array, array_qx, array_qy)\<close>: the last axis runs fastest.\<close>

definition itertools_product :: "nat list \<Rightarrow> rat list \<Rightarrow> rat list \<Rightarrow> (nat \<times> rat \<times> rat) list" where
  "itertools_product ts xs ys = List.product ts (List.product xs ys)"

definition second_generation :: "double_arith \<Rightarrow> scan_spec \<Rightarrow> pyval \<Rightarrow> error + pyval" where
  "second_generation fp s children =
     (let track_array = [0..<nat (n_split s)]
      in scan_loop fp (only_keep_upper_triangle s)
           (enumerate 0 (itertools_product track_array (array_qx s) (array_qy s))) children)"


subsection \<open>The script up to the configuration handed to tree_maker\<close>

text \<open>Lines 1 to 272: the dictionary \<^verbatim>\<open>children\<close>.\<close>

definition build_children :: "scan_spec \<Rightarrow> environment \<Rightarrow> error + pyval" where
  "build_children s env =
     and_then (confirm_skip_leveling (skip_leveling_base_collider s) (stdin_lines env)) (\<lambda>ins.
     and_then (d_config_beambeam env ins) (\<lambda>beambeam.
     and_then (first_generation s beambeam) (\<lambda>children.
     second_generation (arith env) s children)))"

text \<open>Lines 278 to 285: the loaded \<^verbatim>\<open>config.yaml\<close> gets the tree and the environment script.\<close>

definition build_config :: "scan_spec \<Rightarrow> environment \<Rightarrow> error + pyval" where
  "build_config s env =
     and_then (build_children s env) (\<lambda>children.
     and_then (setpath (config_yaml env) [''root'', ''children''] children) (\<lambda>config.
     setpath config [''root'', ''setup_env_script'']
       (PStr (getcwd env @ ''/../miniconda/bin/activate''))))"

section \<open>Notions used to state the properties\<close>

text \<open>The shape of \<^verbatim>\<open>children\<close>: one base node with its two settings and its leaves.\<close>

definition base_tree :: "pyval \<Rightarrow> pyval \<Rightarrow> (string \<times> pyval) list \<Rightarrow> pyval" where
  "base_tree particles collider leaves = PDict [(''base_collider'',
     PDict [(''config_particles'', particles), (''config_collider'', collider),
            (''children'', PDict leaves)])]"

text \<open>Reading a key back: the number after \<^verbatim>\<open>xtrack_\<close>.\<close>

definition digit_val :: "char \<Rightarrow> nat" where
  "digit_val c = of_char c - 48"

definition nat_of_decimal :: "string \<Rightarrow> nat" where
  "nat_of_decimal s = foldl (\<lambda>a c. 10 * a + digit_val c) 0 s"

definition key_index :: "string \<Rightarrow> nat" where
  "key_index k = nat_of_decimal (drop 7 k)"

text \<open>
  The combination at an index of the row-major product of the three axes (split index,
  then qx, then qy), computed from the specification alone. A combination is kept unless
  the pruning is on and the test of line 263 holds of it.
\<close>

definition n_combinations :: "scan_spec \<Rightarrow> nat" where
  "n_combinations s = nat (n_split s) * (length (array_qx s) * length (array_qy s))"

definition combination :: "scan_spec \<Rightarrow> nat \<Rightarrow> nat \<times> rat \<times> rat" where
  "combination s i =
     (i div (length (array_qx s) * length (array_qy s)),
      array_qx s ! ((i div length (array_qy s)) mod length (array_qx s)),
      array_qy s ! (i mod length (array_qy s)))"

definition kept :: "double_arith \<Rightarrow> scan_spec \<Rightarrow> nat \<times> rat \<times> rat \<Rightarrow> bool" where
  "kept fp s c = (case c of (track, qx, qy) \<Rightarrow>
     \<not> (only_keep_upper_triangle s \<and> below_upper_diagonal fp qx qy))"

definition kept_indices :: "double_arith \<Rightarrow> scan_spec \<Rightarrow> nat list" where
  "kept_indices fp s = filter (\<lambda>i. kept fp s (combination s i)) [0..<n_combinations s]"

definition leaf_at :: "scan_spec \<Rightarrow> nat \<Rightarrow> pyval" where
  "leaf_at s i = (case combination s i of (track, qx, qy) \<Rightarrow> leaf track qx qy)"

definition expected_leaves :: "double_arith \<Rightarrow> scan_spec \<Rightarrow> (string \<times> pyval) list" where
  "expected_leaves fp s = map (\<lambda>i. (xtrack_key i, leaf_at s i)) (kept_indices fp s)"

text \<open>The two settings of the base node as the first generation leaves them.\<close>

definition expected_config_particles :: "scan_spec \<Rightarrow> pyval" where
  "expected_config_particles s = PDict
     [(''r_min'', PInt 2), (''r_max'', PInt 10), (''n_r'', PInt 256), (''n_angles'', PInt 5),
      (''n_split'', PInt (n_split s))]"

definition expected_config_collider :: "scan_spec \<Rightarrow> pyval \<Rightarrow> pyval" where
  "expected_config_collider s beambeam = PDict
     [(''beam_config'',
         PDict [(''lhcb1'', PDict [(''beam_energy_tot'', PInt 7000)]),
                (''lhcb2'', PDict [(''beam_energy_tot'', PInt 7000)])]),
      (''optics_file'', PStr ''acc-models-lhc/flatcc/opt_flathv_75_180_1500_thin.madx''),
      (''config_knobs_and_tuning'',
         PDict [(''qx'', PDict [(''lhcb1'', PFloat 62.31), (''lhcb2'', PFloat 62.31)]),
                (''qy'', PDict [(''lhcb1'', PFloat 60.32), (''lhcb2'', PFloat 60.32)]),
                (''dqx'', PDict [(''lhcb1'', PFloat 5), (''lhcb2'', PFloat 5)]),
                (''dqy'', PDict [(''lhcb1'', PFloat 5), (''lhcb2'', PFloat 5)]),
                (''delta_cmr'', PFloat 0.001),
                (''delta_cmi'', PFloat 0),
                (''knob_settings'',
                   PDict [(''on_x1'', PInt 250), (''on_sep1'', PInt 0), (''on_x2'', PInt (- 170)),
                          (''on_sep2'', PFloat 0.138), (''on_x5'', PInt 250), (''on_sep5'', PInt 0),
                          (''on_x8h'', PFloat 0), (''on_x8v'', PInt 170),
                          (''on_crab1'', PInt (- 190)), (''on_crab5'', PInt (- 190)),
                          (''i_oct_b1'', PFloat 60), (''i_oct_b2'', PFloat 60)])]),
      (''skip_leveling_base_collider'', PBool (skip_leveling_base_collider s)),
      (''config_lumi_leveling'',
         PDict [(''ip2'', PDict [(''separation_in_sigmas'', PInt 5)]),
                (''ip8'', PDict [(''luminosity'', PFloat (2 * 10 ^ 33))])]),
      (''config_beambeam'', beambeam)]"

section \<open>Resolved configurations\<close>

text \<open>
  Modelled from the spec: the resolution of a node's configuration. Nothing in the two
  scripts resolves a leaf's configuration against its parent's (tree_maker and the job of
  the second generation do); the spec says that the configuration at a node is the
  deep-merge of its ancestors' configuration with its own overrides, and keeps the
  children of a node apart from its configuration keys.
\<close>

fun deep_merge :: "pyval \<Rightarrow> pyval \<Rightarrow> pyval" where
  "deep_merge (PDict base) (PDict overrides) =
     PDict (map (\<lambda>(k, v). (k, case map_of overrides k of None \<Rightarrow> v | Some w \<Rightarrow> deep_merge v w)) base
            @ filter (\<lambda>(k, w). map_of base k = None) overrides)"
| "deep_merge base overrides = overrides"

definition node_configuration :: "pyval \<Rightarrow> pyval" where
  "node_configuration node =
     (case node of PDict d \<Rightarrow> PDict (filter (\<lambda>(k, v). k \<noteq> ''children'') d) | _ \<Rightarrow> node)"

definition resolved_configuration :: "pyval \<Rightarrow> pyval \<Rightarrow> pyval" where
  "resolved_configuration parent node =
     deep_merge (node_configuration parent) (node_configuration node)"

section \<open>The script as it stands, and a small scan\<close>

text \<open>
  The specification written in the script (five splits, six values of each tune, the
  upper triangle only), a run of it where the user accepts the worst bunch, and a scan
  of one split and two values of each tune.
\<close>

definition default_spec :: scan_spec where
  "default_spec =
     \<lparr> n_split = 5,
       array_qx = [62.305, 62.306, 62.307, 62.308, 62.309, 62.310],
       array_qy = [60.305, 60.306, 60.307, 60.308, 60.309, 60.310],
       only_keep_upper_triangle = True,
       skip_leveling_base_collider = False \<rparr>"

definition small_spec :: scan_spec where
  "small_spec =
     \<lparr> n_split = 1,
       array_qx = [62.305, 62.310],
       array_qy = [60.305, 60.310],
       only_keep_upper_triangle = True,
       skip_leveling_base_collider = False \<rparr>"

text \<open>
  An arithmetic that makes no rounding error. On the tunes of the two scans above, which
  have three decimals and lie at least a thousandth away from the diagonal of line 263,
  the test of that line gives the same in doubles.
\<close>

definition exact_arith :: double_arith where
  "exact_arith =
     \<lparr> double_add = (\<lambda>x y. x + y),
       double_sub = (\<lambda>x y. x - y),
       double_mul = (\<lambda>x y. x * y),
       double_div = (\<lambda>x y. x / y),
       double_less = (\<lambda>x y. x < y) \<rparr>"

definition example_env :: environment where
  "example_env =
     \<lparr> stdin_lines = [''y''],
       getcwd = ''/home/user/example_DA_study/master_study'',
       config_yaml = PDict [(''root'',
         PDict [(''setup_env_script'', PStr ''none''), (''children'', PNone)])],
       get_worst_bunch = (\<lambda>path beam. if beam = ''beam_1'' then Inr 1963 else Inr 1960),
       py_int = (\<lambda>line. None),
       arith = exact_arith \<rparr>"

definition example_beambeam :: pyval where
  "example_beambeam = PDict
     [(''mask_with_filling_pattern'',
         PDict [(''pattern_fname'', PStr (''/home/user/example_DA_study/master_study/''
                   @ ''master_jobs/filling_scheme/''
                   @ ''8b4e_1972b_1960_1178_1886_224bpi_12inj_800ns_bs200ns.json'')),
                (''i_bunch_b1'', PInt 1963), (''i_bunch_b2'', PInt 1960)]),
      (''num_particles_per_bunch'', PFloat 140000000000),
      (''nemitt_x'', PFloat (1 / 400000)),
      (''nemitt_y'', PFloat (1 / 400000))]"

text \<open>
  A configuration of the job of the first generation: the particle settings of the
  generator, the collider settings the job reads (from the template of the job and from
  the generator), and the log file.
\<close>

definition example_job_configuration :: "scan_spec \<Rightarrow> pyval" where
  "example_job_configuration s = PDict
     [(''config_particles'', expected_config_particles s),
      (''config_collider'', PDict
         [(''config_mad'', PDict
             [(''links'', PDict [(''acc-models-lhc'', PStr ''../../../../modules/hllhc15'')]),
              (''optics_file'', PStr ''acc-models-lhc/flatcc/opt_flathv_75_180_1500_thin.madx''),
              (''beam_config'',
                 PDict [(''lhcb1'', PDict [(''beam_energy_tot'', PInt 7000)]),
                        (''lhcb2'', PDict [(''beam_energy_tot'', PInt 7000)])]),
              (''enable_imperfections'', PBool False),
              (''enable_knob_synthesis'', PBool True),
              (''rename_coupling_knobs'', PBool True),
              (''pars_for_imperfections'', PDict []),
              (''ver_lhc_run'', PNone),
              (''ver_hllhc_optics'', PFloat 1.5)]),
          (''config_knobs_and_tuning'', PDict
             [(''knob_settings'', PDict [(''on_x1'', PInt 250), (''on_sep1'', PInt 0)]),
              (''knob_names'', PDict [(''lhcb1'', PDict []), (''lhcb2'', PDict [])]),
              (''closed_orbit_correction'',
                 PDict [(''lhcb1'', PStr ''correction/corr_co_lhcb1.json''),
                        (''lhcb2'', PStr ''correction/corr_co_lhcb2.json'')]),
              (''qx'', PDict [(''lhcb1'', PFloat 62.31), (''lhcb2'', PFloat 62.31)]),
              (''qy'', PDict [(''lhcb1'', PFloat 60.32), (''lhcb2'', PFloat 60.32)]),
              (''dqx'', PDict [(''lhcb1'', PFloat 5), (''lhcb2'', PFloat 5)]),
              (''dqy'', PDict [(''lhcb1'', PFloat 5), (''lhcb2'', PFloat 5)])]),
          (''config_beambeam'', PDict
             [(''num_long_range_encounters_per_side'', PDict [(''ip1'', PInt 25)]),
              (''num_slices_head_on'', PInt 11),
              (''bunch_spacing_buckets'', PInt 10),
              (''sigma_z'', PFloat 0.0761)]),
          (''skip_leveling'', PBool False),
          (''skip_leveling_base_collider'', PBool (skip_leveling_base_collider s)),
          (''config_lumi_leveling'',
             PDict [(''ip2'', PDict [(''separation_in_sigmas'', PInt 5)]),
                    (''ip8'', PDict [(''luminosity'', PFloat (2 * 10 ^ 33))])])]),
      (''log_file'', PStr ''tree_maker.log'')]"

section \<open>The job of the first generation (1_build_distr_and_collider.py)\<close>

subsection \<open>Runs: what a script does before it returns or raises\<close>

text \<open>
  The job is run in the directory of its node. What it does there is recorded as a list
  of events, in order: a tag written through \<^verbatim>\<open>tree_maker.tag_json.tag_it\<close>, a
  directory made, a file written or removed (paths as the script gives them, relative to
  the working directory), and a call into one of the libraries the job drives (MAD-X,
  xmask, xsuite, the orbit-correction module), which are not part of the two scripts.
  Such a call returns or raises; which, is a parameter of the model. The tag interface
  itself is taken to record the tag and return. A run is the events so far together
  with the result or the exception that ended it.
\<close>

datatype event =
    Tag pyval string
  | MakeDirs string
  | WriteFile string
  | Remove string
  | Call string

type_synonym 'a run = "event list \<times> (error + 'a)"

definition lift :: "error + 'a \<Rightarrow> 'a run" where
  "lift m = ([], m)"

definition emit :: "event \<Rightarrow> unit run" where
  "emit e = ([e], Inr ())"

definition call :: "(string \<Rightarrow> error option) \<Rightarrow> string \<Rightarrow> unit run" where
  "call ext name = ([Call name], case ext name of None \<Rightarrow> Inr () | Some e \<Rightarrow> Inl e)"

fun then_run :: "'a run \<Rightarrow> ('a \<Rightarrow> 'b run) \<Rightarrow> 'b run" where
  "then_run (trace, Inl e) f = (trace, Inl e)"
| "then_run (trace, Inr x) f = (case f x of (trace', r) \<Rightarrow> (trace @ trace', r))"

fun for_each :: "'a list \<Rightarrow> ('a \<Rightarrow> unit run) \<Rightarrow> unit run" where
  "for_each [] body = ([], Inr ())"
| "for_each (x # xs) body = then_run (body x) (\<lambda>_. for_each xs body)"

subsection \<open>Python on the values of the configuration\<close>

text \<open>\<^verbatim>\<open>k in v\<close> for a string \<open>k\<close>, and the truth value of \<^verbatim>\<open>not v\<close>.\<close>

fun py_in :: "string \<Rightarrow> pyval \<Rightarrow> error + bool" where
  "py_in k (PDict d) = Inr (map_of d k \<noteq> None)"
| "py_in k (PList xs) = Inr (PStr k \<in> set xs)"
| "py_in k (PStr s) = Inr (sublist k s)"
| "py_in k _ = Inl TypeError"

fun truthy :: "pyval \<Rightarrow> bool" where
  "truthy PNone = False"
| "truthy (PBool b) = b"
| "truthy (PInt n) = (n \<noteq> 0)"
| "truthy (PFloat x) = (x \<noteq> 0)"
| "truthy (PStr s) = (s \<noteq> [])"
| "truthy (PList xs) = (xs \<noteq> [])"
| "truthy (PDict d) = (d \<noteq> [])"

text \<open>
  A value used as a number of samples (\<^verbatim>\<open>operator.index\<close>: an integer or a boolean) and
  as an end point of \<^verbatim>\<open>np.linspace\<close>. A number is an end point; \<^verbatim>\<open>None\<close>, a string and a
  dictionary are refused by numpy's arithmetic. A list as an end point asks numpy for a
  table of samples, which line 54 or line 60 then refuses; the model refuses it
  here, so for a list the exception and the line it is raised at are not those of numpy.
\<close>

fun as_index :: "pyval \<Rightarrow> error + int" where
  "as_index (PInt n) = Inr n"
| "as_index (PBool b) = Inr (if b then 1 else 0)"
| "as_index _ = Inl TypeError"

fun as_number :: "pyval \<Rightarrow> error + rat" where
  "as_number (PInt n) = Inr (of_int n)"
| "as_number (PBool b) = Inr (if b then 1 else 0)"
| "as_number (PFloat x) = Inr x"
| "as_number _ = Inl TypeError"

text \<open>
  \<^verbatim>\<open>np.linspace(start, stop, num)\<close>: the number of samples. The number is read first
  (\<^verbatim>\<open>TypeError\<close> unless an integer or a boolean, \<^verbatim>\<open>ValueError\<close> when negative), then the
  end points. The samples themselves are not modelled.
\<close>

definition np_linspace :: "pyval \<Rightarrow> pyval \<Rightarrow> pyval \<Rightarrow> error + nat" where
  "np_linspace start stop num =
     and_then (as_index num) (\<lambda>n.
     if n < 0 then Inl ValueError
     else and_then (as_number start) (\<lambda>_.
          and_then (as_number stop) (\<lambda>_. Inr (nat n))))"

text \<open>
  \<^verbatim>\<open>n_angles + 2\<close> (line 44): defined on an integer, a boolean and a float. The sum with
  a float is a float; its value, which Python rounds to a double, plays no role, since
  \<^verbatim>\<open>np.linspace\<close> refuses every float as a number of samples.
\<close>

fun plus_two :: "pyval \<Rightarrow> error + pyval" where
  "plus_two (PInt n) = Inr (PInt (n + 2))"
| "plus_two (PBool b) = Inr (PInt (if b then 3 else 2))"
| "plus_two (PFloat x) = Inr (PFloat (x + 2))"
| "plus_two _ = Inl TypeError"

text \<open>
  \<^verbatim>\<open>np.array_split(particle_list, n_split)\<close> (line 54): the number of chunks. A value with
  a length is read as the list of the split points, which gives one chunk more than
  points, and every point must do as a bound of a slice (an integer, a boolean or
  \<^verbatim>\<open>None\<close>); the points of a string are its characters, those of a dictionary its keys.
  Any other value is a number of sections, through \<^verbatim>\<open>int\<close>, which truncates a float;
  \<^verbatim>\<open>ValueError\<close> unless it is positive.
\<close>

fun slice_bound :: "pyval \<Rightarrow> bool" where
  "slice_bound (PInt n) = True"
| "slice_bound (PBool b) = True"
| "slice_bound PNone = True"
| "slice_bound _ = False"

definition positive_sections :: "int \<Rightarrow> error + nat" where
  "positive_sections n = (if n \<le> 0 then Inl ValueError else Inr (nat n))"

fun n_sections :: "pyval \<Rightarrow> error + nat" where
  "n_sections (PInt n) = positive_sections n"
| "n_sections (PBool b) = positive_sections (if b then 1 else 0)"
| "n_sections (PFloat x) = positive_sections (if 0 \<le> x then \<lfloor>x\<rfloor> else \<lceil>x\<rceil>)"
| "n_sections PNone = Inl TypeError"
| "n_sections (PStr s) = (if s = [] then Inr 1 else Inl TypeError)"
| "n_sections (PDict d) = (if d = [] then Inr 1 else Inl TypeError)"
| "n_sections (PList xs) = (if list_all slice_bound xs then Inr (length xs + 1) else Inl TypeError)"

text \<open>
  \<^verbatim>\<open>pd.DataFrame(my_list, columns=[...])\<close> with the three column names of line 62, on a
  chunk of a distribution of \<open>n\<close> particles. A chunk of a distribution that has
  particles is a table of three columns, also when the chunk itself has no row. The
  chunks of a distribution without particles have one dimension only, and the
  constructor refuses the three names with \<^verbatim>\<open>ValueError\<close>.
\<close>

definition pd_DataFrame :: "nat \<Rightarrow> error + unit" where
  "pd_DataFrame n = (if n = 0 then Inl ValueError else Inr ())"

subsection \<open>The sections of the job\<close>

text \<open>Lines 29 to 31: the tag \<^verbatim>\<open>started\<close>, when the configuration has a log file.\<close>

definition start_logging :: "pyval \<Rightarrow> unit run" where
  "start_logging configuration =
     then_run (lift (py_in ''log_file'' configuration)) (\<lambda>present.
     if present then
       then_run (lift (getitem configuration ''log_file'')) (\<lambda>log_file.
       emit (Tag log_file ''started''))
     else lift (Inr ()))"

text \<open>
  Lines 36 to 63. The radii are \<^verbatim>\<open>n_r\<close> samples, the angles the samples of line 44
  without the first and the last, and the distribution has a particle for every radius
  and angle. It is split into chunks, and chunk \<open>i\<close> is made a table and written to
  \<^verbatim>\<open>particles/<i:02>.parquet\<close> by pandas.
\<close>

definition build_particle_distribution :: "(string \<Rightarrow> error option) \<Rightarrow> pyval \<Rightarrow> unit run" where
  "build_particle_distribution ext config_particles =
     then_run (lift (getitem config_particles ''r_min'')) (\<lambda>r_min.
     then_run (lift (getitem config_particles ''r_max'')) (\<lambda>r_max.
     then_run (lift (getitem config_particles ''n_r'')) (\<lambda>n_r.
     then_run (lift (np_linspace r_min r_max n_r)) (\<lambda>radial_list.
     then_run (lift (getitem config_particles ''n_angles'')) (\<lambda>n_angles.
     then_run (lift (and_then (plus_two n_angles) (np_linspace (PInt 0) (PInt 90)))) (\<lambda>samples.
     then_run (lift (Inr (samples - 2))) (\<lambda>theta_list.
     then_run (lift (Inr (radial_list * theta_list))) (\<lambda>particle_list.
     then_run (lift (getitem config_particles ''n_split'')) (\<lambda>n_split.
     then_run (lift (n_sections n_split)) (\<lambda>chunks.
     then_run (emit (MakeDirs ''particles'')) (\<lambda>_.
     for_each [0..<chunks] (\<lambda>idx_chunk.
       then_run (lift (pd_DataFrame particle_list)) (\<lambda>_.
       then_run (call ext ''pd.DataFrame.to_parquet'') (\<lambda>_.
       emit (WriteFile (''particles/'' @ format_0w 2 idx_chunk @ ''.parquet''))))))))))))))))"

text \<open>Lines 68 to 72: the orbit-correction files.\<close>

definition generate_correction_files :: "(string \<Rightarrow> error option) \<Rightarrow> unit run" where
  "generate_correction_files ext =
     then_run (call ext ''generate_orbit_correction_setup'') (\<lambda>_.
     then_run (emit (MakeDirs ''correction'')) (\<lambda>_.
     for_each [''lhcb1'', ''lhcb2''] (\<lambda>nn.
       then_run (emit (WriteFile (''correction/corr_co_'' @ nn @ ''.json''))) (\<lambda>_.
       call ext ''json.dump''))))"

text \<open>Lines 77 to 113: the collider is built from the MAD model, the temporary files
  are removed.\<close>

definition build_collider :: "(string \<Rightarrow> error option) \<Rightarrow> pyval \<Rightarrow> unit run" where
  "build_collider ext config_collider =
     then_run (lift (getitem config_collider ''config_mad'')) (\<lambda>config_mad_model.
     then_run (lift (getitem config_mad_model ''links'')) (\<lambda>_.
     then_run (call ext ''xm.make_mad_environment'') (\<lambda>_.
     then_run (call ext ''Madx'') (\<lambda>_.
     then_run (call ext ''Madx'') (\<lambda>_.
     then_run (call ext ''ost.build_sequence'') (\<lambda>_.
     then_run (call ext ''ost.build_sequence'') (\<lambda>_.
     then_run (lift (getitem config_mad_model ''optics_file'')) (\<lambda>_.
     then_run (call ext ''ost.apply_optics'') (\<lambda>_.
     then_run (for_each [''beam_config'', ''enable_imperfections'', ''enable_knob_synthesis'',
                 ''rename_coupling_knobs'', ''pars_for_imperfections'', ''ver_lhc_run'',
                 ''ver_hllhc_optics'']
               (\<lambda>k. then_run (lift (getitem config_mad_model k)) (\<lambda>_. lift (Inr ())))) (\<lambda>_.
     then_run (call ext ''xlhc.build_xsuite_collider'') (\<lambda>_.
     then_run (emit (Remove ''mad_collider.log'')) (\<lambda>_.
     then_run (emit (Remove ''mad_b4.log'')) (\<lambda>_.
     then_run (emit (Remove ''temp'')) (\<lambda>_.
     then_run (emit (Remove ''errors'')) (\<lambda>_.
     emit (Remove ''acc-models-lhc''))))))))))))))))"

text \<open>Lines 118 to 131: the beam-beam lenses.\<close>

definition install_beambeam :: "(string \<Rightarrow> error option) \<Rightarrow> pyval \<Rightarrow> unit run" where
  "install_beambeam ext config_collider =
     then_run (lift (getitem config_collider ''config_beambeam'')) (\<lambda>config_bb.
     then_run (for_each [''num_long_range_encounters_per_side'', ''num_slices_head_on'',
                 ''bunch_spacing_buckets'', ''sigma_z'']
               (\<lambda>k. then_run (lift (getitem config_bb k)) (\<lambda>_. lift (Inr ())))) (\<lambda>_.
     call ext ''collider.install_beambeam_interactions''))"

text \<open>The targets and the call of \<^verbatim>\<open>xm.machine_tuning\<close> for one line (lines 149 to 168;
  lines 183 to 196 without the closed-orbit correction).\<close>

definition machine_tuning ::
    "(string \<Rightarrow> error option) \<Rightarrow> pyval \<Rightarrow> bool \<Rightarrow> string \<Rightarrow> unit run" where
  "machine_tuning ext conf_knobs_and_tuning with_orbit_correction line_name =
     then_run (lift (getpath conf_knobs_and_tuning [''knob_names'', line_name])) (\<lambda>_.
     then_run (for_each [''qx'', ''qy'', ''dqx'', ''dqy'']
               (\<lambda>k. then_run (lift (getpath conf_knobs_and_tuning [k, line_name]))
                      (\<lambda>_. lift (Inr ())))) (\<lambda>_.
     then_run (if with_orbit_correction
               then then_run (lift (getpath conf_knobs_and_tuning
                                [''closed_orbit_correction'', line_name])) (\<lambda>_. lift (Inr ()))
               else lift (Inr ())) (\<lambda>_.
     call ext ''xm.machine_tuning'')))"

text \<open>Lines 137 to 168: the knobs are set and both lines are tuned.\<close>

definition knobs_and_tuning :: "(string \<Rightarrow> error option) \<Rightarrow> pyval \<Rightarrow> unit run" where
  "knobs_and_tuning ext config_collider =
     then_run (call ext ''collider.build_trackers'') (\<lambda>_.
     then_run (lift (getitem config_collider ''config_knobs_and_tuning'')) (\<lambda>conf_knobs_and_tuning.
     then_run (lift (getitem conf_knobs_and_tuning ''knob_settings'')) (\<lambda>knob_settings.
     then_run (case knob_settings of
                 PDict items \<Rightarrow> for_each items (\<lambda>(kk, vv). call ext (''collider.vars '' @ kk))
               | _ \<Rightarrow> lift (Inl AttributeError)) (\<lambda>_.
     for_each [''lhcb1'', ''lhcb2''] (machine_tuning ext conf_knobs_and_tuning True)))))"

text \<open>
  Line 173: the leveling is done when the collider configuration has the key
  \<^verbatim>\<open>config_lumi_leveling\<close> and its value under \<^verbatim>\<open>skip_leveling\<close> is false; without the
  second key the lookup raises \<^verbatim>\<open>KeyError\<close>.
\<close>

definition leveling_condition :: "pyval \<Rightarrow> error + bool" where
  "leveling_condition config_collider =
     and_then (py_in ''config_lumi_leveling'' config_collider) (\<lambda>present.
     if present then
       and_then (getitem config_collider ''skip_leveling'') (\<lambda>skip. Inr (\<not> truthy skip))
     else Inr False)"

text \<open>Lines 173 to 203.\<close>

definition levelling :: "(string \<Rightarrow> error option) \<Rightarrow> pyval \<Rightarrow> unit run" where
  "levelling ext config_collider =
     then_run (lift (leveling_condition config_collider)) (\<lambda>do_leveling.
     if do_leveling then
       then_run (lift (getitem config_collider ''config_lumi_leveling'')) (\<lambda>_.
       then_run (call ext ''xlhc.luminosity_leveling'') (\<lambda>_.
       then_run (lift (getitem config_collider ''config_knobs_and_tuning'')) (\<lambda>conf_knobs_and_tuning.
       for_each [''lhcb1'', ''lhcb2''] (machine_tuning ext conf_knobs_and_tuning False))))
     else lift (Inr ()))"

text \<open>Lines 214 to 218: the collider is saved and the tag \<^verbatim>\<open>completed\<close> is written.\<close>

definition save_and_log :: "(string \<Rightarrow> error option) \<Rightarrow> pyval \<Rightarrow> unit run" where
  "save_and_log ext configuration =
     then_run (emit (MakeDirs ''collider'')) (\<lambda>_.
     then_run (call ext ''collider.to_json'') (\<lambda>_.
     then_run (emit (WriteFile ''collider/collider.json'')) (\<lambda>_.
     then_run (lift (getitem configuration ''log_file'')) (\<lambda>log_file.
     emit (Tag log_file ''completed'')))))"

text \<open>The work between the two tags.\<close>

definition job_work :: "(string \<Rightarrow> error option) \<Rightarrow> pyval \<Rightarrow> pyval \<Rightarrow> unit run" where
  "job_work ext config_particles config_collider =
     then_run (build_particle_distribution ext config_particles) (\<lambda>_.
     then_run (generate_correction_files ext) (\<lambda>_.
     then_run (build_collider ext config_collider) (\<lambda>_.
     then_run (install_beambeam ext config_collider) (\<lambda>_.
     then_run (knobs_and_tuning ext config_collider) (\<lambda>_.
     levelling ext config_collider)))))"

text \<open>The job, run on the loaded \<^verbatim>\<open>config.yaml\<close> of its node.\<close>

definition build_distr_and_collider :: "(string \<Rightarrow> error option) \<Rightarrow> pyval \<Rightarrow> unit run" where
  "build_distr_and_collider ext configuration =
     then_run (lift (getitem configuration ''config_particles'')) (\<lambda>config_particles.
     then_run (lift (getitem configuration ''config_collider'')) (\<lambda>config_collider.
     then_run (start_logging configuration) (\<lambda>_.
     then_run (job_work ext config_particles config_collider) (\<lambda>_.
     save_and_log ext configuration))))"

subsection \<open>Paths\<close>

text \<open>
  A directory is the list of the names from the root down to it. A relative path is
  resolved against a directory name by name: \<^verbatim>\<open>..\<close> goes to the parent, \<^verbatim>\<open>.\<close> and an
  empty name stay. The leaf of key \<open>k\<close> has its directory under the directory of the
  base node, named \<open>k\<close> (tree_maker's layout), and the job of the base node runs in the
  directory of the base node.
\<close>

fun split_path :: "string \<Rightarrow> string list" where
  "split_path [] = [[]]"
| "split_path (c # cs) =
     (if c = CHR ''/'' then [] # split_path cs
      else (case split_path cs of [] \<Rightarrow> [[c]] | w # ws \<Rightarrow> (c # w) # ws))"



definition files_written :: "event list \<Rightarrow> string list" where
  "files_written trace = concat (map (\<lambda>e. case e of WriteFile p \<Rightarrow> [p] | _ \<Rightarrow> []) trace)"

definition tags :: "event list \<Rightarrow> event list" where
  "tags trace = filter (\<lambda>e. case e of Tag f st \<Rightarrow> True | _ \<Rightarrow> False) trace"

text \<open>An event that is not a tag, and one that writes no file.\<close>

definition no_tag :: "event \<Rightarrow> bool" where
  "no_tag e = (case e of Tag f st \<Rightarrow> False | _ \<Rightarrow> True)"

definition no_write :: "event \<Rightarrow> bool" where
  "no_write e = (case e of WriteFile p \<Rightarrow> False | _ \<Rightarrow> True)"

section \<open>The folder of the study (001_make_folders.py, lines 291 to 314)\<close>

text \<open>
  The files below the working directory of the generator: an entry is a file, or a
  directory with its entries by name. A path is the list of its names. Links and
  permissions are outside the model.
\<close>

datatype entry = File | Dir "(string \<times> entry) list"

text \<open>The entry at a path, or the error of the system call that looks for it.\<close>

fun stat :: "entry \<Rightarrow> string list \<Rightarrow> error + entry" where
  "stat e [] = Inr e"
| "stat File (n # p) = Inl NotADirectoryError"
| "stat (Dir es) (n # p) =
     (case map_of es n of None \<Rightarrow> Inl FileNotFoundError | Some e \<Rightarrow> stat e p)"

definition os_path_exists :: "entry \<Rightarrow> string list \<Rightarrow> bool" where
  "os_path_exists cwd p = (case stat cwd p of Inl e \<Rightarrow> False | Inr e \<Rightarrow> True)"

fun put :: "string \<Rightarrow> entry \<Rightarrow> (string \<times> entry) list \<Rightarrow> (string \<times> entry) list" where
  "put n e [] = [(n, e)]"
| "put n e ((n', e') # es) = (if n = n' then (n, e) # es else (n', e') # put n e es)"

text \<open>\<^verbatim>\<open>os.mkdir(path)\<close>: the parent must be a directory, the name must be free.\<close>

fun os_mkdir :: "entry \<Rightarrow> string list \<Rightarrow> error + entry" where
  "os_mkdir e [] = Inl FileExistsError"
| "os_mkdir File (n # p) = Inl NotADirectoryError"
| "os_mkdir (Dir es) [n] =
     (case map_of es n of None \<Rightarrow> Inr (Dir (put n (Dir []) es)) | Some e \<Rightarrow> Inl FileExistsError)"
| "os_mkdir (Dir es) (n # m # p) =
     (case map_of es n of
        None \<Rightarrow> Inl FileNotFoundError
      | Some e \<Rightarrow> and_then (os_mkdir e (m # p)) (\<lambda>e'. Inr (Dir (put n e' es))))"

text \<open>
  \<^verbatim>\<open>os.makedirs(head + "/" + tail)\<close>: the parent is made first when it does not exist, then
  the directory itself.
\<close>

definition os_makedirs :: "entry \<Rightarrow> string \<Rightarrow> string \<Rightarrow> error + entry" where
  "os_makedirs cwd head tail =
     and_then (if os_path_exists cwd [head] then Inr cwd else os_mkdir cwd [head]) (\<lambda>fs.
     os_mkdir fs [head, tail])"

text \<open>\<^verbatim>\<open>os.chdir(path)\<close>: the path must lead to a directory.\<close>

definition os_chdir :: "entry \<Rightarrow> string list \<Rightarrow> error + unit" where
  "os_chdir cwd p =
     and_then (stat cwd p) (\<lambda>e. case e of File \<Rightarrow> Inl NotADirectoryError | Dir es \<Rightarrow> Inr ())"

definition study_name :: string where
  "study_name = ''example_HL_tunescan''"

text \<open>
  Lines 293 to 298: the folder \<^verbatim>\<open>scans/<study_name>\<close> is made unless the path exists, and
  entered. The result is the files as the lines leave them.
\<close>

definition enter_study_folder :: "entry \<Rightarrow> error + entry" where
  "enter_study_folder cwd =
     and_then (if \<not> os_path_exists cwd [''scans'', study_name]
               then os_makedirs cwd ''scans'' study_name else Inr cwd) (\<lambda>fs.
     and_then (os_chdir fs [''scans'', study_name]) (\<lambda>_. Inr fs))"

text \<open>
  Lines 293 to 314, reached once the configuration is built: the folder is entered, the
  tree is made by tree_maker (\<^verbatim>\<open>initialize\<close>, \<^verbatim>\<open>make_folders\<close>) and its two log files are
  renamed. What tree_maker writes in the folder is not part of the two scripts; the calls
  are events of the run, and whether they return or raise is a parameter, as for the job.
\<close>

definition write_tree :: "(string \<Rightarrow> error option) \<Rightarrow> entry \<Rightarrow> unit run" where
  "write_tree ext cwd =
     then_run (lift (enter_study_folder cwd)) (\<lambda>fs.
     then_run (call ext ''initialize'') (\<lambda>_.
     then_run (call ext ''root.make_folders'') (\<lambda>_.
     then_run (call ext ''shutil.move tree_maker.json'') (\<lambda>_.
     call ext ''shutil.move tree_maker.log''))))"

text \<open>The working directory of the generator after a first run with one leaf.\<close>

definition materialized :: entry where
  "materialized = Dir
     [(''config.yaml'', File),
      (''scans'', Dir
         [(''example_HL_tunescan'', Dir
            [(''base_collider'', Dir
               [(''config.yaml'', File),
                (''xtrack_0001'', Dir [(''config.yaml'', File)])]),
             (''tree_maker_example_HL_tunescan.json'', File),
             (''tree_maker_example_HL_tunescan.log'', File)])])]"

section \<open>Dictionaries and paths\<close>

lemma map_of_dict_set: "map_of (dict_set k v d) = (map_of d)(k \<mapsto> v)"
  by (induction d) auto

lemma getitem_setitem_same: "setitem d k v = Inr d' \<Longrightarrow> getitem d' k = Inr v"
  by (cases d) (auto simp: map_of_dict_set)

lemma getitem_setitem_other: "setitem d k v = Inr d' \<Longrightarrow> k' \<noteq> k \<Longrightarrow> getitem d' k' = getitem d k'"
  by (cases d) (auto simp: map_of_dict_set)

lemma and_then_Inr: "and_then m f = Inr y \<Longrightarrow> \<exists>x. m = Inr x \<and> f x = Inr y"
  by (cases m) (auto simp: and_then_def)

lemma getpath_setpath_same: "setpath d p v = Inr d' \<Longrightarrow> getpath d' p = Inr v"
proof (induction d p v arbitrary: d' rule: setpath.induct)
  case (1 d v)
  then show ?case by simp
next
  case (2 d k v)
  then show ?case by (simp add: getitem_setitem_same and_then_def)
next
  case (3 d k k' ks v)
  from 3(2) obtain sub sub' where sub: "getitem d k = Inr sub"
    and sub': "setpath sub (k' # ks) v = Inr sub'" and d': "setitem d k sub' = Inr d'"
    by (auto dest!: and_then_Inr)
  have "getpath sub' (k' # ks) = Inr v" using 3(1) [OF sub'] .
  then show ?case using getitem_setitem_same [OF d'] by (simp add: and_then_def)
qed

lemma getpath_setpath_diverge:
  "setpath d (pre @ a # r) v = Inr d' \<Longrightarrow> a \<noteq> b \<Longrightarrow>
   getpath d' (pre @ b # q) = getpath d (pre @ b # q)"
proof (induction pre arbitrary: d d')
  case Nil
  show ?case
  proof (cases r)
    case Nil
    then show ?thesis using Nil.prems getitem_setitem_other [of d a v d' b] by (simp add: and_then_def)
  next
    case (Cons k ks)
    with Nil.prems obtain sub' where "setitem d a sub' = Inr d'"
      by (auto dest!: and_then_Inr)
    then show ?thesis using Nil.prems(2) getitem_setitem_other [of d a sub' d' b] by (simp add: and_then_def)
  qed
next
  case (Cons k pre)
  obtain x xs where px: "pre @ a # r = x # xs" by (cases "pre @ a # r") auto
  from Cons.prems(1) obtain sub sub' where sub: "getitem d k = Inr sub"
    and sub': "setpath sub (pre @ a # r) v = Inr sub'" and d': "setitem d k sub' = Inr d'"
    by (auto simp: px dest!: and_then_Inr)
  have "getpath sub' (pre @ b # q) = getpath sub (pre @ b # q)"
    using Cons.IH [OF sub' Cons.prems(2)] .
  then show ?case using getitem_setitem_same [OF d'] sub by (simp add: and_then_def)
qed

section \<open>Keys\<close>

text \<open>The decimal digits of a number read back give the number, with or without padding.\<close>

lemma digit_val_digit_char: "d < 10 \<Longrightarrow> digit_val (digit_char d) = d"
proof -
  assume "d < 10"
  then have "d \<in> {0,1,2,3,4,5,6,7,8,9}" by auto
  then show ?thesis by (auto simp: digit_val_def digit_char_def)
qed

lemma nat_of_decimal_snoc: "nat_of_decimal (s @ [c]) = 10 * nat_of_decimal s + digit_val c"
  by (simp add: nat_of_decimal_def)

lemma nat_of_decimal_decimal: "nat_of_decimal (decimal n) = n"
proof (induction n rule: decimal.induct)
  case (1 n)
  show ?case
  proof (cases "n < 10")
    case True
    then show ?thesis by (subst decimal.simps) (simp add: nat_of_decimal_def digit_val_digit_char)
  next
    case False
    then have "nat_of_decimal (decimal n) = 10 * nat_of_decimal (decimal (n div 10)) + digit_val (digit_char (n mod 10))"
      by (subst decimal.simps) (simp add: nat_of_decimal_snoc)
    also have "\<dots> = 10 * (n div 10) + n mod 10"
      using 1 False by (simp add: digit_val_digit_char)
    finally show ?thesis by simp
  qed
qed

lemma nat_of_decimal_zeros: "nat_of_decimal (replicate k CHR ''0'' @ s) = nat_of_decimal s"
  by (induction k) (simp_all add: nat_of_decimal_def digit_val_def)

lemma nat_of_decimal_format: "nat_of_decimal (format_0w w n) = n"
  by (simp add: format_0w_def nat_of_decimal_zeros nat_of_decimal_decimal)

lemma key_index_xtrack_key: "key_index (xtrack_key i) = i"
  by (simp add: key_index_def xtrack_key_def nat_of_decimal_format)

lemma length_format_0w: "w \<le> length (format_0w w n)"
  by (simp add: format_0w_def)

lemma xtrack_key_inj: "xtrack_key i = xtrack_key j \<Longrightarrow> i = j"
  by (metis key_index_xtrack_key)

section \<open>The loop of the second generation\<close>

lemma dict_set_fresh: "k \<notin> fst ` set d \<Longrightarrow> dict_set k v d = d @ [(k, v)]"
  by (induction d) auto

lemma setpath_leaf:
  "setpath (base_tree cp cc ls) [''base_collider'', ''children'', k] v
     = Inr (base_tree cp cc (dict_set k v ls))"
  by (simp add: base_tree_def and_then_def)

lemma scan_loop_tree:
  "distinct (map fst items) \<Longrightarrow> (\<forall>i \<in> fst ` set items. xtrack_key i \<notin> fst ` set ls) \<Longrightarrow>
   scan_loop fp tri items (base_tree cp cc ls)
     = Inr (base_tree cp cc (ls @ map (\<lambda>(i, t, x, y). (xtrack_key i, leaf t x y))
                                   (filter (\<lambda>(i, t, x, y). \<not> (tri \<and> below_upper_diagonal fp x y)) items)))"
proof (induction items arbitrary: ls)
  case Nil
  then show ?case by simp
next
  case (Cons it items)
  obtain i t x y where it: "it = (i, t, x, y)" by (cases it) auto
  let ?f = "\<lambda>(i, t, x, y). (xtrack_key i, leaf t x y)"
  let ?P = "\<lambda>(i, t, x, y). \<not> (tri \<and> below_upper_diagonal fp x y)"
  show ?case
  proof (cases "tri \<and> below_upper_diagonal fp x y")
    case True
    have "scan_loop fp tri (it # items) (base_tree cp cc ls) = scan_loop fp tri items (base_tree cp cc ls)"
      using True by (simp add: it)
    also have "\<dots> = Inr (base_tree cp cc (ls @ map ?f (filter ?P items)))"
      using Cons.prems by (intro Cons.IH) auto
    finally show ?thesis using True by (simp add: it)
  next
    case False
    have fresh: "xtrack_key i \<notin> fst ` set ls" using Cons.prems(2) by (simp add: it)
    have "scan_loop fp tri (it # items) (base_tree cp cc ls)
            = scan_loop fp tri items (base_tree cp cc (ls @ [(xtrack_key i, leaf t x y)]))"
      using False by (auto simp add: it setpath_leaf and_then_def dict_set_fresh [OF fresh] simp del: setpath.simps)
    also have "\<dots> = Inr (base_tree cp cc ((ls @ [(xtrack_key i, leaf t x y)]) @ map ?f (filter ?P items)))"
    proof (intro Cons.IH)
      show "distinct (map fst items)" using Cons.prems(1) by simp
      show "\<forall>j\<in>fst ` set items. xtrack_key j \<notin> fst ` set (ls @ [(xtrack_key i, leaf t x y)])"
      proof
        fix j assume j: "j \<in> fst ` set items"
        then have "j \<noteq> i" using Cons.prems(1) by (auto simp: it)
        then have "xtrack_key j \<noteq> xtrack_key i" using xtrack_key_inj by blast
        moreover have "xtrack_key j \<notin> fst ` set ls" using Cons.prems(2) j by auto
        ultimately show "xtrack_key j \<notin> fst ` set (ls @ [(xtrack_key i, leaf t x y)])" by auto
      qed
    qed
    finally show ?thesis using False by (auto simp add: it)
  qed
qed

lemma enumerate_as_map: "enumerate 0 xs = map (\<lambda>i. (i, xs ! i)) [0..<length xs]"
  by (rule nth_equalityI) (simp_all add: nth_enumerate_eq)

lemma mod_mult_div: "(i mod (a * b)) div b = (i div b) mod (a::nat)"
proof (cases "b = 0")
  case True
  then show ?thesis by simp
next
  case False
  have "i mod (b * a) = b * (i div b mod a) + i mod b" by (rule mod_mult2_eq)
  then have "(i mod (a * b)) div b = (b * (i div b mod a) + i mod b) div b"
    by (simp add: mult.commute)
  also have "\<dots> = i div b mod a" using False by simp
  finally show ?thesis .
qed

lemma mod_mult_mod: "(i mod (a * b)) mod b = i mod (b::nat)"
  by (simp add: mod_mod_cancel)

lemma itertools_product_nth:
  assumes "i < length ts * (length xs * length ys)"
  shows "itertools_product ts xs ys ! i =
           (ts ! (i div (length xs * length ys)),
            xs ! ((i div length ys) mod length xs),
            ys ! (i mod length ys))"
proof -
  have "i mod (length xs * length ys) < length xs * length ys"
    using assms by (cases "length xs * length ys = 0") auto
  then show ?thesis
    using assms by (simp add: itertools_product_def product_nth mod_mult_div mod_mult_mod)
qed

lemma length_itertools_product:
  "length (itertools_product ts xs ys) = length ts * (length xs * length ys)"
  by (simp add: itertools_product_def)

lemma enumerated_combinations:
  "enumerate 0 (itertools_product [0..<nat (n_split s)] (array_qx s) (array_qy s))
     = map (\<lambda>i. (i, combination s i)) [0..<n_combinations s]"
proof -
  let ?P = "itertools_product [0..<nat (n_split s)] (array_qx s) (array_qy s)"
  have len: "length ?P = n_combinations s"
    by (simp add: length_itertools_product n_combinations_def)
  have "?P ! i = combination s i" if "i < n_combinations s" for i
  proof -
    have i: "i < length [0..<nat (n_split s)] * (length (array_qx s) * length (array_qy s))"
      using that by (simp add: n_combinations_def)
    have "i div (length (array_qx s) * length (array_qy s)) < nat (n_split s)"
      using that by (simp add: n_combinations_def less_mult_imp_div_less)
    then show ?thesis
      by (simp add: itertools_product_nth [OF i] combination_def)
  qed
  then show ?thesis
    by (simp add: enumerate_as_map len)
qed

lemma second_generation_tree:
  "second_generation fp s (base_tree cp cc []) = Inr (base_tree cp cc (expected_leaves fp s))"
proof -
  let ?items = "map (\<lambda>i. (i, combination s i)) [0..<n_combinations s]"
  have d: "distinct (map fst ?items)" by (simp add: comp_def)
  have "scan_loop fp (only_keep_upper_triangle s) ?items (base_tree cp cc [])
          = Inr (base_tree cp cc ([] @ map (\<lambda>(i, t, x, y). (xtrack_key i, leaf t x y))
              (filter (\<lambda>(i, t, x, y). \<not> (only_keep_upper_triangle s \<and> below_upper_diagonal fp x y)) ?items)))"
    by (rule scan_loop_tree [OF d]) simp
  also have "map (\<lambda>(i, t, x, y). (xtrack_key i, leaf t x y))
              (filter (\<lambda>(i, t, x, y). \<not> (only_keep_upper_triangle s \<and> below_upper_diagonal fp x y)) ?items)
             = expected_leaves fp s"
    by (simp add: expected_leaves_def kept_indices_def filter_map comp_def kept_def leaf_at_def
        split_def)
  finally show ?thesis
    by (simp add: second_generation_def enumerated_combinations)
qed

lemma sorted_kept_indices: "sorted_wrt (<) (kept_indices fp s)"
  by (simp add: kept_indices_def sorted_wrt_filter)

section \<open>The first generation and the whole tree\<close>

lemma d_config_particles_eq: "d_config_particles s = Inr (expected_config_particles s)"
  by (simp add: d_config_particles_def expected_config_particles_def and_then_def)

lemma first_generation_tree:
  "first_generation s bb
     = Inr (base_tree (expected_config_particles s) (expected_config_collider s bb) [])"
  by (simp add: first_generation_def d_config_particles_eq d_config_mad_def
      d_config_tune_and_chroma_def d_config_knobs_def d_config_leveling_def beam_energy_tot_def
      base_tree_def expected_config_particles_def expected_config_collider_def and_then_def)

lemma build_children_eq:
  "build_children s env =
     and_then (confirm_skip_leveling (skip_leveling_base_collider s) (stdin_lines env)) (\<lambda>ins.
     and_then (d_config_beambeam env ins) (\<lambda>bb.
     Inr (base_tree (expected_config_particles s) (expected_config_collider s bb)
            (expected_leaves (arith env) s))))"
  by (simp add: build_children_def first_generation_tree second_generation_tree and_then_def)

lemma build_children_Inr:
  assumes "build_children s env = Inr children"
  obtains bb where "children = base_tree (expected_config_particles s)
                      (expected_config_collider s bb) (expected_leaves (arith env) s)"
  using assms unfolding build_children_eq by (auto dest!: and_then_Inr)

lemma getpath_base_tree_children:
  "getpath (base_tree cp cc ls) [''base_collider'', ''children''] = Inr (PDict ls)"
  by (simp add: base_tree_def and_then_def)


lemma length_decimal_le: "0 < k \<Longrightarrow> n < 10 ^ k \<Longrightarrow> length (decimal n) \<le> k"
proof (induction n arbitrary: k rule: decimal.induct)
  case (1 n)
  show ?case
  proof (cases "n < 10")
    case True
    then show ?thesis using 1(2) by (subst decimal.simps) simp
  next
    case False
    obtain k' where k: "k = Suc k'" using 1(2) by (cases k) auto
    have "k' \<noteq> 0" using False 1(3) k by (cases k') auto
    moreover have "n div 10 < 10 ^ k'" using 1(3) k by (simp add: less_mult_imp_div_less mult.commute)
    ultimately have "length (decimal (n div 10)) \<le> k'" using 1(1) [OF False, of k'] by simp
    then show ?thesis using False k by (subst decimal.simps) simp
  qed
qed

lemma length_format_0w_exact: "0 < w \<Longrightarrow> n < 10 ^ w \<Longrightarrow> length (format_0w w n) = w"
  using length_decimal_le [of w n] by (simp add: format_0w_def)

lemma xtrack_key_prefix: "take 7 (xtrack_key i) = ''xtrack_''"
  by (simp add: xtrack_key_def)

lemma suffix_csv_json: "\<not> suffix ''.csv'' (os_path_abspath cwd (p @ ''.json''))"
proof -
  have "\<not> suffix ''.csv'' (xs @ ''.json'')" for xs :: string
    by (simp add: suffix_to_prefix)
  from this [of "cwd @ p"] this [of "cwd @ ''/'' @ p"]
  show ?thesis by (cases "cwd = ''/''") (simp_all add: os_path_abspath_def)
qed

lemma example_beambeam_eq: "d_config_beambeam example_env [''y''] = Inr example_beambeam"
  by (simp add: d_config_beambeam_def example_env_def os_path_abspath_def and_then_def
      suffix_to_prefix example_beambeam_def)

lemma arith_example_env: "arith example_env = exact_arith"
  by (simp add: example_env_def)

lemma example_children:
  "\<not> skip_leveling_base_collider s \<Longrightarrow>
   build_children s example_env
     = Inr (base_tree (expected_config_particles s) (expected_config_collider s example_beambeam)
              (expected_leaves exact_arith s))"
proof -
  assume s: "\<not> skip_leveling_base_collider s"
  have "stdin_lines example_env = [''y'']" by (simp add: example_env_def)
  then show ?thesis
    using s by (simp add: build_children_eq confirm_skip_leveling_def and_then_def
        example_beambeam_eq arith_example_env)
qed

lemma kept_indices_small: "kept_indices exact_arith small_spec = [1]"
  by code_simp

lemma expected_leaves_small:
  "expected_leaves exact_arith small_spec = [(''xtrack_0001'', leaf 0 62.305 60.310)]"
  by (simp add: expected_leaves_def kept_indices_small leaf_at_def combination_def small_spec_def)
     code_simp

section \<open>The claims\<close>

text \<open>
  C1. Whenever the generator gets to its tree, the children of the base node are, in this
  order, the kept combinations of the row-major product of the split index, qx and qy
  (kept by the test of line 263, in the doubles of the run, when the pruning is on):
  the child of combination number \<open>i\<close> (counted over all combinations, kept or not) has
  the key \<^verbatim>\<open>xtrack_\<close> followed by \<open>i\<close> zero-padded to four digits, and holds the leaf of
  that combination, which \<open>combination\<close> computes from the specification alone. The
  indices of the children increase strictly, a key read back gives its index, and two
  indices never share a key. The generation is a function of its input, so a second run
  on the same input gives the same keys and values in the same order.
\<close>

theorem second_generation_row_major_keys:
  assumes "build_children s env = Inr children"
  shows "getpath children [''base_collider'', ''children'']
           = Inr (PDict (map (\<lambda>i. (xtrack_key i, leaf_at s i)) (kept_indices (arith env) s)))
         \<and> sorted_wrt (<) (kept_indices (arith env) s)
         \<and> set (kept_indices (arith env) s) \<subseteq> {0..<n_combinations s}
         \<and> (\<forall>i. take 7 (xtrack_key i) = ''xtrack_'' \<and> 4 \<le> length (drop 7 (xtrack_key i))
                \<and> key_index (xtrack_key i) = i)
         \<and> (\<forall>i. i < 10000 \<longrightarrow> length (xtrack_key i) = 11)
         \<and> (\<forall>i j. xtrack_key i = xtrack_key j \<longrightarrow> i = j)"
proof -
  obtain bb where c: "children = base_tree (expected_config_particles s)
      (expected_config_collider s bb) (expected_leaves (arith env) s)"
    using assms by (rule build_children_Inr)
  have 1: "getpath children [''base_collider'', ''children'']
           = Inr (PDict (map (\<lambda>i. (xtrack_key i, leaf_at s i)) (kept_indices (arith env) s)))"
    unfolding c getpath_base_tree_children expected_leaves_def ..
  have 2: "set (kept_indices (arith env) s) \<subseteq> {0..<n_combinations s}"
    by (auto simp: kept_indices_def)
  have 3: "4 \<le> length (drop 7 (xtrack_key i))" for i
    using length_format_0w [of 4 i] by (simp add: xtrack_key_def)
  have 4: "length (xtrack_key i) = 11" if "i < 10000" for i
    using that length_format_0w_exact [of 4 i] by (simp add: xtrack_key_def)
  show ?thesis
    using 1 2 3 4 sorted_kept_indices xtrack_key_prefix key_index_xtrack_key xtrack_key_inj
    by blast
qed

theorem second_generation_row_major_keys_witness:
  "build_children small_spec example_env
     = Inr (base_tree (expected_config_particles small_spec)
              (expected_config_collider small_spec example_beambeam)
              [(''xtrack_0001'', leaf 0 62.305 60.310)])
   \<and> getpath (base_tree (expected_config_particles small_spec)
              (expected_config_collider small_spec example_beambeam)
              [(''xtrack_0001'', leaf 0 62.305 60.310)]) [''base_collider'', ''children'']
       = Inr (PDict [(''xtrack_0001'', leaf 0 62.305 60.310)])
   \<and> kept_indices exact_arith small_spec = [1]
   \<and> key_index ''xtrack_0001'' = 1"
proof -
  have c: "build_children small_spec example_env
     = Inr (base_tree (expected_config_particles small_spec)
              (expected_config_collider small_spec example_beambeam)
              [(''xtrack_0001'', leaf 0 62.305 60.310)])"
  proof -
    have h: "\<not> skip_leveling_base_collider small_spec" by (simp add: small_spec_def)
    show ?thesis
      using example_children [OF h] unfolding expected_leaves_small .
  qed
  have k: "xtrack_key 1 = ''xtrack_0001''"
    using expected_leaves_small by (simp add: expected_leaves_def kept_indices_small)
  have i: "key_index ''xtrack_0001'' = 1"
    using key_index_xtrack_key [of 1] k by simp
  have "getpath (base_tree (expected_config_particles small_spec)
              (expected_config_collider small_spec example_beambeam)
              [(''xtrack_0001'', leaf 0 62.305 60.310)]) [''base_collider'', ''children'']
       = Inr (PDict (map (\<lambda>i. (xtrack_key i, leaf_at small_spec i)) (kept_indices exact_arith small_spec)))"
    using second_generation_row_major_keys [OF c, unfolded arith_example_env] by (rule conjunct1)
  then have g: "getpath (base_tree (expected_config_particles small_spec)
              (expected_config_collider small_spec example_beambeam)
              [(''xtrack_0001'', leaf 0 62.305 60.310)]) [''base_collider'', ''children'']
       = Inr (PDict [(''xtrack_0001'', leaf 0 62.305 60.310)])"
    by (simp only: expected_leaves_small [unfolded expected_leaves_def])
  show ?thesis
    using c g kept_indices_small i by blast
qed

lemma map_of_keyed:
  "inj f \<Longrightarrow> i \<in> set xs \<Longrightarrow> map_of (map (\<lambda>i. (f i, g i)) xs) (f i) = Some (g i)"
  by (induction xs) (auto dest: injD)

lemma inj_xtrack_key: "inj xtrack_key"
  by (rule injI) (rule xtrack_key_inj)

lemma map_of_expected_leaves:
  "i \<in> set (kept_indices fp s) \<Longrightarrow> map_of (expected_leaves fp s) (xtrack_key i) = Some (leaf_at s i)"
  unfolding expected_leaves_def by (rule map_of_keyed [OF inj_xtrack_key])





lemma build_config_Inr:
  assumes "build_config s env = Inr config"
  obtains children config1 where "build_children s env = Inr children"
    and "setpath (config_yaml env) [''root'', ''children''] children = Inr config1"
    and "setpath config1 [''root'', ''setup_env_script'']
           (PStr (getcwd env @ ''/../miniconda/bin/activate'')) = Inr config"
proof -
  from assms obtain children where c: "build_children s env = Inr children"
    and r: "and_then (setpath (config_yaml env) [''root'', ''children''] children) (\<lambda>config.
       setpath config [''root'', ''setup_env_script'']
         (PStr (getcwd env @ ''/../miniconda/bin/activate''))) = Inr config"
    unfolding build_config_def by (blast dest: and_then_Inr)
  from r obtain config1 where
    "setpath (config_yaml env) [''root'', ''children''] children = Inr config1"
    "setpath config1 [''root'', ''setup_env_script'']
           (PStr (getcwd env @ ''/../miniconda/bin/activate'')) = Inr config"
    by (blast dest: and_then_Inr)
  with c show ?thesis by (rule that)
qed

lemma getpath_append:
  "getpath d (p @ q) = and_then (getpath d p) (\<lambda>sub. getpath sub q)"
  by (induction p arbitrary: d) (auto simp: and_then_def split: sum.splits)

lemma config_root_children:
  assumes "build_config s env = Inr config"
  obtains children where "build_children s env = Inr children"
    and "getpath config [''root'', ''children''] = Inr children"
proof -
  from assms obtain children config1 where c: "build_children s env = Inr children"
    and 1: "setpath (config_yaml env) [''root'', ''children''] children = Inr config1"
    and 2: "setpath config1 [''root'', ''setup_env_script'']
           (PStr (getcwd env @ ''/../miniconda/bin/activate'')) = Inr config"
    by (rule build_config_Inr)
  have "getpath config1 [''root'', ''children''] = Inr children"
    using 1 by (rule getpath_setpath_same)
  moreover have "getpath config ([''root''] @ ''children'' # []) = getpath config1 ([''root''] @ ''children'' # [])"
    using 2 by (intro getpath_setpath_diverge [where a = "''setup_env_script''" and r = "[]"]) simp_all
  ultimately have "getpath config [''root'', ''children''] = Inr children" by simp
  with c show ?thesis by (rule that)
qed

text \<open>
  C5. Whenever the generator gets to the configuration it hands to tree_maker, the
  children of the root are one entry, \<^verbatim>\<open>base_collider\<close>, which holds the particle and
  collider settings of the base computation; the children of that node are the leaves of
  the scan, and every kept combination is found under it at its key.
\<close>

theorem single_base_node:
  assumes "build_config s env = Inr config"
  shows "\<exists>base beambeam.
           getpath config [''root'', ''children''] = Inr (PDict [(''base_collider'', base)])
         \<and> getitem base ''config_particles'' = Inr (expected_config_particles s)
         \<and> getitem base ''config_collider'' = Inr (expected_config_collider s beambeam)
         \<and> getitem base ''children'' = Inr (PDict (expected_leaves (arith env) s))
         \<and> (\<forall>i \<in> set (kept_indices (arith env) s).
               getpath config [''root'', ''children'', ''base_collider'', ''children'', xtrack_key i]
                 = Inr (leaf_at s i))"
proof -
  from assms obtain children where c: "build_children s env = Inr children"
    and g: "getpath config [''root'', ''children''] = Inr children"
    by (rule config_root_children)
  from c obtain bb where t: "children = base_tree (expected_config_particles s)
      (expected_config_collider s bb) (expected_leaves (arith env) s)"
    by (rule build_children_Inr)
  let ?base = "PDict [(''config_particles'', expected_config_particles s),
     (''config_collider'', expected_config_collider s bb),
     (''children'', PDict (expected_leaves (arith env) s))]"
  have 1: "getpath config [''root'', ''children''] = Inr (PDict [(''base_collider'', ?base)])"
    using g by (simp add: t base_tree_def)
  have 5: "getpath config [''root'', ''children'', ''base_collider'', ''children'', xtrack_key i]
             = Inr (leaf_at s i)" if "i \<in> set (kept_indices (arith env) s)" for i
  proof -
    have "getpath config ([''root'', ''children''] @ [''base_collider'', ''children'', xtrack_key i])
            = getpath (PDict [(''base_collider'', ?base)]) [''base_collider'', ''children'', xtrack_key i]"
      unfolding getpath_append 1 by (simp add: and_then_def)
    also have "\<dots> = Inr (leaf_at s i)"
      using map_of_expected_leaves [OF that] by (simp add: and_then_def)
    finally show ?thesis by simp
  qed
  have "getitem ?base ''config_particles'' = Inr (expected_config_particles s)"
    "getitem ?base ''config_collider'' = Inr (expected_config_collider s bb)"
    "getitem ?base ''children'' = Inr (PDict (expected_leaves (arith env) s))"
    by simp_all
  with 1 5 show ?thesis by blast
qed

lemma example_config:
  assumes "\<not> skip_leveling_base_collider s"
  shows "build_config s example_env = Inr (PDict [(''root'', PDict
     [(''setup_env_script'', PStr ''/home/user/example_DA_study/master_study/../miniconda/bin/activate''),
      (''children'', base_tree (expected_config_particles s)
         (expected_config_collider s example_beambeam) (expected_leaves exact_arith s))])])"
  using example_children [OF assms]
  by (simp add: build_config_def and_then_def example_env_def)

theorem single_base_node_witness:
  "build_config small_spec example_env = Inr (PDict [(''root'', PDict
     [(''setup_env_script'', PStr ''/home/user/example_DA_study/master_study/../miniconda/bin/activate''),
      (''children'', PDict [(''base_collider'', PDict
         [(''config_particles'', expected_config_particles small_spec),
          (''config_collider'', expected_config_collider small_spec example_beambeam),
          (''children'', PDict [(''xtrack_0001'', leaf 0 62.305 60.310)])])])])])
   \<and> (\<exists>base. getpath (PDict [(''root'', PDict
     [(''setup_env_script'', PStr ''/home/user/example_DA_study/master_study/../miniconda/bin/activate''),
      (''children'', PDict [(''base_collider'', PDict
         [(''config_particles'', expected_config_particles small_spec),
          (''config_collider'', expected_config_collider small_spec example_beambeam),
          (''children'', PDict [(''xtrack_0001'', leaf 0 62.305 60.310)])])])])])
        [''root'', ''children''] = Inr (PDict [(''base_collider'', base)])
      \<and> getitem base ''children'' = Inr (PDict [(''xtrack_0001'', leaf 0 62.305 60.310)]))"
proof -
  have h: "\<not> skip_leveling_base_collider small_spec" by (simp add: small_spec_def)
  have c: "build_config small_spec example_env = Inr (PDict [(''root'', PDict
     [(''setup_env_script'', PStr ''/home/user/example_DA_study/master_study/../miniconda/bin/activate''),
      (''children'', PDict [(''base_collider'', PDict
         [(''config_particles'', expected_config_particles small_spec),
          (''config_collider'', expected_config_collider small_spec example_beambeam),
          (''children'', PDict [(''xtrack_0001'', leaf 0 62.305 60.310)])])])])])"
    using example_config [OF h] unfolding expected_leaves_small base_tree_def .
  show ?thesis
    using single_base_node [OF c, unfolded arith_example_env] c unfolding expected_leaves_small by blast
qed

lemma and_then_Inl: "and_then m f = Inl e \<Longrightarrow> m = Inl e \<or> (\<exists>x. m = Inr x \<and> f x = Inl e)"
  by (cases m) (auto simp: and_then_def)

lemma setitem_Inl_independent: "setitem d k v = Inl e \<Longrightarrow> setitem d k v' = Inl e"
  by (cases d) auto

lemma getitem_Inr_setitem: "getitem d k = Inr sub \<Longrightarrow> \<exists>d'. setitem d k' v = Inr d'"
  by (cases d) auto

lemma setpath_Inl_independent: "setpath d p v = Inl e \<Longrightarrow> setpath d p v' = Inl e"
proof (induction d p v arbitrary: e rule: setpath.induct)
  case (1 d v)
  then show ?case by simp
next
  case (2 d k v)
  then have "setitem d k v = Inl e" by simp
  then have "setitem d k v' = Inl e" by (rule setitem_Inl_independent)
  then show ?case by simp
next
  case (3 d k k' ks v)
  show ?case
  proof (cases "getitem d k")
    case (Inl e')
    then show ?thesis using 3(2) by (simp add: and_then_def)
  next
    case (Inr sub)
    show ?thesis
    proof (cases "setpath sub (k' # ks) v")
      case (Inl e')
      then have "e' = e" using 3(2) Inr by (simp add: and_then_def)
      then have "setpath sub (k' # ks) v' = Inl e" using 3(1) [OF Inl] by simp
      then show ?thesis using Inr by (simp add: and_then_def)
    next
      case sub': (Inr sub')
      obtain d' where "setitem d k sub' = Inr d'" using getitem_Inr_setitem [OF Inr] by blast
      then show ?thesis using 3(2) Inr sub' by (simp add: and_then_def)
    qed
  qed
qed

lemma setpath_Inl_iff: "(setpath d p v = Inl e) = (setpath d p v' = Inl e)"
  using setpath_Inl_independent by blast

lemma setpath_sibling_succeeds:
  assumes "setpath d [a, b] v = Inr d1"
  shows "\<exists>d2. setpath d1 [a, c] w = Inr d2"
proof -
  from assms obtain sub sub' where "getitem d a = Inr sub" "setitem sub b v = Inr sub'"
    and d1: "setitem d a sub' = Inr d1"
    by (auto dest!: and_then_Inr)
  then obtain xs where "sub' = PDict xs" by (cases sub) auto
  moreover have "getitem d1 a = Inr sub'" using d1 by (rule getitem_setitem_same)
  moreover obtain ys where "d1 = PDict ys" using d1 by (cases d) auto
  ultimately show ?thesis by (simp add: and_then_def)
qed

lemma build_children_cases:
  obtains (error) e where
      "\<And>s' :: scan_spec. skip_leveling_base_collider s' = skip_leveling_base_collider s \<Longrightarrow>
         build_children s' env = Inl e"
  | (tree) bb where
      "\<And>s' :: scan_spec. skip_leveling_base_collider s' = skip_leveling_base_collider s \<Longrightarrow>
         build_children s' env = Inr (base_tree (expected_config_particles s')
           (expected_config_collider s' bb) (expected_leaves (arith env) s'))"
proof (cases "confirm_skip_leveling (skip_leveling_base_collider s) (stdin_lines env)")
  case (Inl e)
  then have "build_children s' env = Inl e"
    if "skip_leveling_base_collider s' = skip_leveling_base_collider s" for s' :: scan_spec
    unfolding build_children_eq using that by (simp add: and_then_def)
  then show ?thesis by (rule error)
next
  case (Inr ins)
  show ?thesis
  proof (cases "d_config_beambeam env ins")
    case (Inl e)
    then have "build_children s' env = Inl e"
      if "skip_leveling_base_collider s' = skip_leveling_base_collider s" for s' :: scan_spec
      unfolding build_children_eq using that Inr by (simp add: and_then_def)
    then show ?thesis by (rule error)
  next
    case bb: (Inr bb)
    then have "build_children s' env = Inr (base_tree (expected_config_particles s')
           (expected_config_collider s' bb) (expected_leaves (arith env) s'))"
      if "skip_leveling_base_collider s' = skip_leveling_base_collider s" for s' :: scan_spec
      unfolding build_children_eq using that Inr by (simp add: and_then_def)
    then show ?thesis by (rule tree)
  qed
qed

lemma build_children_Inl_independent:
  fixes s s' :: scan_spec
  assumes "skip_leveling_base_collider s' = skip_leveling_base_collider s"
  shows "(build_children s env = Inl e) = (build_children s' env = Inl e)"
proof (cases rule: build_children_cases [of s env])
  case (error e')
  from error [of s] error [of s'] assms show ?thesis by simp
next
  case (tree bb)
  from tree [of s] tree [of s'] assms show ?thesis by simp
qed

lemma build_children_Inr_independent:
  fixes s s' :: scan_spec
  assumes "skip_leveling_base_collider s' = skip_leveling_base_collider s"
    and "build_children s env = Inr c"
  shows "\<exists>c'. build_children s' env = Inr c'"
proof (cases rule: build_children_cases [of s env])
  case (error e')
  from error [of s] assms(2) show ?thesis by simp
next
  case (tree bb)
  from tree [of s'] assms(1) show ?thesis by simp
qed

lemma build_config_Inl:
  "(build_config s env = Inl e) =
     (build_children s env = Inl e
      \<or> (\<exists>c. build_children s env = Inr c
             \<and> setpath (config_yaml env) [''root'', ''children''] c = Inl e))"
proof (cases "build_children s env")
  case (Inl e')
  then show ?thesis by (simp add: build_config_def and_then_def)
next
  case (Inr c)
  show ?thesis
  proof (cases "setpath (config_yaml env) [''root'', ''children''] c")
    case (Inl e')
    then show ?thesis using Inr by (simp add: build_config_def and_then_def del: setpath.simps)
  next
    case c1: (Inr config1)
    obtain d2 where "setpath config1 [''root'', ''setup_env_script'']
        (PStr (getcwd env @ ''/../miniconda/bin/activate'')) = Inr d2"
      using setpath_sibling_succeeds [OF c1] by blast
    then show ?thesis using Inr c1 by (simp add: build_config_def and_then_def del: setpath.simps)
  qed
qed

lemma build_config_Inl_independent:
  fixes s s' :: scan_spec
  assumes "skip_leveling_base_collider s' = skip_leveling_base_collider s"
  shows "(build_config s env = Inl e) = (build_config s' env = Inl e)"
proof -
  have "build_config b env = Inl e" if "build_config a env = Inl e"
    and f: "skip_leveling_base_collider b = skip_leveling_base_collider a" for a b :: scan_spec
  proof -
    from that(1) consider "build_children a env = Inl e"
      | c where "build_children a env = Inr c"
          "setpath (config_yaml env) [''root'', ''children''] c = Inl e"
      unfolding build_config_Inl by blast
    then show ?thesis
    proof cases
      case 1
      then have "build_children b env = Inl e"
        using build_children_Inl_independent [OF f, of env e] by simp
      then show ?thesis unfolding build_config_Inl by simp
    next
      case 2
      obtain c' where c': "build_children b env = Inr c'"
        using build_children_Inr_independent [OF f 2(1)] by blast
      have "setpath (config_yaml env) [''root'', ''children''] c' = Inl e"
        using 2(2) by (rule setpath_Inl_independent)
      with c' show ?thesis unfolding build_config_Inl by blast
    qed
  qed
  from this [of s s'] this [of s' s] assms show ?thesis by auto
qed

lemma empty_axis_no_combination:
  "n_split s \<le> 0 \<or> array_qx s = [] \<or> array_qy s = [] \<Longrightarrow> n_combinations s = 0"
  by (auto simp: n_combinations_def)

lemma empty_axis_no_leaf:
  "n_split s \<le> 0 \<or> array_qx s = [] \<or> array_qy s = [] \<Longrightarrow> expected_leaves fp s = []"
  by (simp add: expected_leaves_def kept_indices_def empty_axis_no_combination)

lemma config_tree:
  assumes "build_config s env = Inr config"
  obtains bb where "getpath config [''root'', ''children'']
      = Inr (base_tree (expected_config_particles s) (expected_config_collider s bb)
               (expected_leaves (arith env) s))"
proof -
  from assms obtain children where c: "build_children s env = Inr children"
    and g: "getpath config [''root'', ''children''] = Inr children"
    by (rule config_root_children)
  from c obtain bb where "children = base_tree (expected_config_particles s)
      (expected_config_collider s bb) (expected_leaves (arith env) s)"
    by (rule build_children_Inr)
  with g show ?thesis by (auto intro: that)
qed

lemma tune_array_empty: "tune_array exact_arith 1 1 0.001 6 = Inr []"
  by (simp add: tune_array_def np_arange_def and_then_def exact_arith_def)

lemma empty_axis_example:
  "build_config (default_spec\<lparr>array_qx := []\<rparr>) example_env = Inr (PDict [(''root'', PDict
       [(''setup_env_script'',
           PStr ''/home/user/example_DA_study/master_study/../miniconda/bin/activate''),
        (''children'', PDict [(''base_collider'', PDict
           [(''config_particles'', expected_config_particles default_spec),
            (''config_collider'', expected_config_collider default_spec example_beambeam),
            (''children'', PDict [])])])])])"
proof -
  have h: "\<not> skip_leveling_base_collider (default_spec\<lparr>array_qx := []\<rparr>)"
    by (simp add: default_spec_def)
  have e: "expected_leaves exact_arith (default_spec\<lparr>array_qx := []\<rparr>) = []"
    by (rule empty_axis_no_leaf) simp
  have p: "expected_config_particles (default_spec\<lparr>array_qx := []\<rparr>)
             = expected_config_particles default_spec"
    "expected_config_collider (default_spec\<lparr>array_qx := []\<rparr>) example_beambeam
             = expected_config_collider default_spec example_beambeam"
    by (simp_all add: expected_config_particles_def expected_config_collider_def)
  show ?thesis
    using example_config [OF h] unfolding e p base_tree_def .
qed

text \<open>
  C8, as stated, fails on the script. The range of the spec's boundary example
  (\<^verbatim>\<open>start = 1.0\<close>, \<^verbatim>\<open>stop = 1.0\<close>) expands to no element (computed without rounding; in
  doubles too \<^verbatim>\<open>1.0 - 1.0\<close> is 0), and the script run with an empty qx array raises
  nothing: it returns the configuration with the base node and no leaf.
\<close>

theorem empty_axis_not_refused:
  "tune_array exact_arith 1 1 0.001 6 = Inr []
   \<and> build_config (default_spec\<lparr>array_qx := []\<rparr>) example_env = Inr (PDict [(''root'', PDict
       [(''setup_env_script'',
           PStr ''/home/user/example_DA_study/master_study/../miniconda/bin/activate''),
        (''children'', PDict [(''base_collider'', PDict
           [(''config_particles'', expected_config_particles default_spec),
            (''config_collider'', expected_config_collider default_spec example_beambeam),
            (''children'', PDict [])])])])])"
  using tune_array_empty empty_axis_example by (rule conjI)

text \<open>
  C8, amended. The script has no check of the axes. With an axis of no element (no
  split, or an empty qx or qy array) the loop body never runs: a generation that returns
  returns the base node with an empty children dictionary, and whether the generator
  raises, and what, is the same as for any other axes under the same leveling flag (the
  errors come from the prompts, the external calls and \<^verbatim>\<open>config.yaml\<close> only).
\<close>

theorem empty_axis_gives_empty_scan:
  assumes "n_split s \<le> 0 \<or> array_qx s = [] \<or> array_qy s = []"
  shows "(\<forall>config. build_config s env = Inr config \<longrightarrow>
            getpath config [''root'', ''children'', ''base_collider'', ''children'']
              = Inr (PDict []))
       \<and> (\<forall>(s' :: scan_spec) e. skip_leveling_base_collider s' = skip_leveling_base_collider s \<longrightarrow>
            (build_config s env = Inl e) = (build_config s' env = Inl e))"
proof (intro conjI allI impI)
  fix config assume c: "build_config s env = Inr config"
  obtain bb where g: "getpath config [''root'', ''children'']
      = Inr (base_tree (expected_config_particles s) (expected_config_collider s bb)
               (expected_leaves (arith env) s))"
    using c by (rule config_tree)
  have "getpath config ([''root'', ''children''] @ [''base_collider'', ''children''])
          = Inr (PDict (expected_leaves (arith env) s))"
    unfolding getpath_append g by (simp add: and_then_def getpath_base_tree_children del: getpath.simps)
  then show "getpath config [''root'', ''children'', ''base_collider'', ''children''] = Inr (PDict [])"
    using empty_axis_no_leaf [OF assms] by simp
next
  fix s' :: scan_spec and e assume "skip_leveling_base_collider s' = skip_leveling_base_collider s"
  then show "(build_config s env = Inl e) = (build_config s' env = Inl e)"
    by (rule build_config_Inl_independent)
qed

theorem empty_axis_gives_empty_scan_witness:
  "array_qx (default_spec\<lparr>array_qx := []\<rparr>) = []
   \<and> getpath (PDict [(''root'', PDict
       [(''setup_env_script'',
           PStr ''/home/user/example_DA_study/master_study/../miniconda/bin/activate''),
        (''children'', PDict [(''base_collider'', PDict
           [(''config_particles'', expected_config_particles default_spec),
            (''config_collider'', expected_config_collider default_spec example_beambeam),
            (''children'', PDict [])])])])])
       [''root'', ''children'', ''base_collider'', ''children''] = Inr (PDict [])"
proof -
  have a: "n_split (default_spec\<lparr>array_qx := []\<rparr>) \<le> 0
      \<or> array_qx (default_spec\<lparr>array_qx := []\<rparr>) = []
      \<or> array_qy (default_spec\<lparr>array_qx := []\<rparr>) = []"
    by simp
  show ?thesis
    using empty_axis_gives_empty_scan [OF a, of example_env] empty_axis_example by simp
qed

lemma scan_loop_frame:
  "scan_loop fp tri items c = Inr c' \<Longrightarrow> k \<noteq> ''children'' \<Longrightarrow>
   getpath c' (''base_collider'' # k # p) = getpath c (''base_collider'' # k # p)"
proof (induction items arbitrary: c)
  case Nil
  then show ?case by simp
next
  case (Cons it items)
  obtain i t x y where it: "it = (i, t, x, y)" by (cases it) auto
  show ?case
  proof (cases "tri \<and> below_upper_diagonal fp x y")
    case True
    then have "scan_loop fp tri items c = Inr c'" using Cons.prems(1) by (simp add: it)
    then show ?thesis using Cons.prems(2) by (rule Cons.IH)
  next
    case False
    then have "and_then (setpath c [''base_collider'', ''children'', xtrack_key i] (leaf t x y))
        (scan_loop fp tri items) = Inr c'"
      using Cons.prems(1) by (auto simp add: it simp del: setpath.simps)
    then obtain c1 where s: "setpath c ([''base_collider''] @ ''children'' # [xtrack_key i]) (leaf t x y) = Inr c1"
      and l: "scan_loop fp tri items c1 = Inr c'"
      by (auto dest!: and_then_Inr simp del: setpath.simps)
    have 1: "getpath c' (''base_collider'' # k # p) = getpath c1 (''base_collider'' # k # p)"
      using l Cons.prems(2) by (rule Cons.IH)
    have "''children'' \<noteq> k" using Cons.prems(2) by simp
    with s have "getpath c1 ([''base_collider''] @ k # p) = getpath c ([''base_collider''] @ k # p)"
      by (rule getpath_setpath_diverge)
    then have 2: "getpath c1 (''base_collider'' # k # p) = getpath c (''base_collider'' # k # p)"
      by (simp only: append.simps)
    show ?thesis using 1 2 by (rule trans)
  qed
qed

lemma second_generation_frame:
  "second_generation fp s c = Inr c' \<Longrightarrow> k \<noteq> ''children'' \<Longrightarrow>
   getpath c' (''base_collider'' # k # p) = getpath c (''base_collider'' # k # p)"
  unfolding second_generation_def Let_def by (rule scan_loop_frame)

lemma map_of_merge_kept:
  "map_of ov k = None \<Longrightarrow>
   map_of (map (\<lambda>(k, v). (k, case map_of ov k of None \<Rightarrow> v | Some w \<Rightarrow> deep_merge v w)) b) k
     = map_of b k"
  by (induction b) auto

lemma map_of_filter_None: "map_of ov k = None \<Longrightarrow> map_of (filter P ov) k = None"
  by (induction ov) (auto split: if_splits)

lemma getitem_deep_merge_base:
  "map_of ov k = None \<Longrightarrow>
   getitem (deep_merge (PDict b) (PDict ov)) k = getitem (PDict b) k"
  by (simp add: map_of_append map_add_def map_of_filter_None map_of_merge_kept
      split: option.splits)

lemma getpath_deep_merge_base:
  "map_of ov k = None \<Longrightarrow>
   getpath (deep_merge (PDict b) (PDict ov)) (k # p) = getpath (PDict b) (k # p)"
  using getitem_deep_merge_base [of ov k b] by (simp del: deep_merge.simps)

lemma map_of_filter_new:
  "map_of b k = None \<Longrightarrow> map_of (filter (\<lambda>(k, w). map_of b k = None) ov) k = map_of ov k"
  by (induction ov) auto

lemma getitem_deep_merge_new:
  "map_of b k = None \<Longrightarrow>
   getitem (deep_merge (PDict b) (PDict ov)) k = getitem (PDict ov) k"
proof -
  assume n: "map_of b k = None"
  then have "map_of (map (\<lambda>(k, v). (k, case map_of ov k of None \<Rightarrow> v | Some w \<Rightarrow> deep_merge v w)) b) k = None"
    by (induction b) (auto split: if_splits)
  then show ?thesis using n
    by (simp add: map_of_append map_add_def map_of_filter_new split: option.splits)
qed

lemma getpath_deep_merge_new:
  "map_of b k = None \<Longrightarrow>
   getpath (deep_merge (PDict b) (PDict ov)) (k # p) = getpath (PDict ov) (k # p)"
  using getitem_deep_merge_new [of b k ov] by (simp del: deep_merge.simps)


lemma node_configuration_base:
  "node_configuration (PDict [(''config_particles'', cp), (''config_collider'', cc),
      (''children'', ls)])
   = PDict [(''config_particles'', cp), (''config_collider'', cc)]"
  by (simp add: node_configuration_def)

lemma node_configuration_leaf: "node_configuration (leaf track qx qy) = leaf track qx qy"
  by (simp add: node_configuration_def leaf_def)

lemma base_tunes:
  assumes "beam \<in> {''lhcb1'', ''lhcb2''}"
  shows "getpath (expected_config_collider s bb) [''config_knobs_and_tuning'', ''qx'', beam]
           = Inr (PFloat 62.31)"
    and "getpath (expected_config_collider s bb) [''config_knobs_and_tuning'', ''qy'', beam]
           = Inr (PFloat 60.32)"
  using assms by (auto simp: expected_config_collider_def and_then_def)

lemma leaf_scanned:
  "getitem (leaf track qx qy) ''parameters_scanned''
     = Inr (PDict [(''group_2'', PDict [(''qx'', PFloat qx), (''qy'', PFloat qy)])])"
  by (simp add: leaf_def)

lemma leaf_other_keys:
  "k \<noteq> ''parameters_scanned'' \<Longrightarrow> getitem (leaf track qx qy) k = getitem (leaf track qx' qy') k"
  by (simp add: leaf_def)

lemma resolved_leaf:
  fixes cp cc ls track qx qy
  defines "r \<equiv> resolved_configuration
      (PDict [(''config_particles'', cp), (''config_collider'', cc), (''children'', ls)])
      (leaf track qx qy)"
  shows "getpath r [''parameters_scanned'', ''group_2'', ''qx''] = Inr (PFloat qx)"
    and "getpath r [''parameters_scanned'', ''group_2'', ''qy''] = Inr (PFloat qy)"
    and "k \<notin> {''parameters_scanned'', ''particle_file'', ''collider_file'', ''n_turns'',
               ''delta_max'', ''log_file''} \<Longrightarrow>
         getpath r (k # p) = getpath (PDict [(''config_particles'', cp), (''config_collider'', cc)]) (k # p)"
proof -
  let ?b = "[(''config_particles'', cp), (''config_collider'', cc)]"
  let ?l = "[(''parameters_scanned'', PDict [(''group_2'', PDict [(''qx'', PFloat qx), (''qy'', PFloat qy)])]),
      (''particle_file'', PStr (''../particles/'' @ format_0w 2 track @ ''.parquet'')),
      (''collider_file'', PStr ''../collider/collider.json''),
      (''n_turns'', PInt n_turns),
      (''delta_max'', PFloat delta_max),
      (''log_file'', PStr ''tree_maker.log'')]"
  have r: "r = deep_merge (PDict ?b) (PDict ?l)"
    unfolding r_def resolved_configuration_def node_configuration_base node_configuration_leaf
    by (simp only: leaf_def)
  have n: "map_of ?b ''parameters_scanned'' = None" by simp
  have g: "getpath r (''parameters_scanned'' # q) = getpath (PDict ?l) (''parameters_scanned'' # q)" for q
    unfolding r using n by (rule getpath_deep_merge_new)
  show "getpath r [''parameters_scanned'', ''group_2'', ''qx''] = Inr (PFloat qx)"
    and "getpath r [''parameters_scanned'', ''group_2'', ''qy''] = Inr (PFloat qy)"
    by (simp_all only: g) (simp_all add: and_then_def)
  assume "k \<notin> {''parameters_scanned'', ''particle_file'', ''collider_file'', ''n_turns'',
               ''delta_max'', ''log_file''}"
  then have "map_of ?l k = None" by simp
  then show "getpath r (k # p) = getpath (PDict ?b) (k # p)"
    unfolding r by (rule getpath_deep_merge_base)
qed

text \<open>
  C3. Whatever the doubles give in the test of line 263, the loop of the second
  generation writes below \<^verbatim>\<open>children["base_collider"]["children"]\<close> only: every other
  path of the base node reads after the loop what it read before. In
  the generated tree the base configuration maps qx to 62.31 and qy to 60.32 for both
  beams; the child of a kept combination is the leaf of that combination, whose tunes
  stand under \<^verbatim>\<open>parameters_scanned.group_2\<close> and in no other entry (the other entries
  are the same whatever the tunes). In the configuration resolved for a leaf (the deep
  merge of the spec) the scanned tunes are the leaf's, any path that does not start with
  a key of the leaf reads the base node's value, and the base tunes are still 62.31 and
  60.32.
\<close>

theorem leaves_leave_base_configuration:
  assumes "first_generation s beambeam = Inr c0" and "second_generation fp s c0 = Inr c1"
  shows "(\<forall>k p. k \<noteq> ''children'' \<longrightarrow>
            getpath c1 (''base_collider'' # k # p) = getpath c0 (''base_collider'' # k # p))
       \<and> (\<forall>beam \<in> {''lhcb1'', ''lhcb2''}.
            getpath c1 [''base_collider'', ''config_collider'', ''config_knobs_and_tuning'', ''qx'', beam]
              = Inr (PFloat 62.31)
          \<and> getpath c1 [''base_collider'', ''config_collider'', ''config_knobs_and_tuning'', ''qy'', beam]
              = Inr (PFloat 60.32))
       \<and> (\<forall>i \<in> set (kept_indices fp s). case combination s i of (track, qx, qy) \<Rightarrow>
            getpath c1 [''base_collider'', ''children'', xtrack_key i] = Inr (leaf track qx qy)
          \<and> getitem (leaf track qx qy) ''parameters_scanned''
              = Inr (PDict [(''group_2'', PDict [(''qx'', PFloat qx), (''qy'', PFloat qy)])])
          \<and> (\<forall>k qx' qy'. k \<noteq> ''parameters_scanned'' \<longrightarrow>
                getitem (leaf track qx qy) k = getitem (leaf track qx' qy') k))
       \<and> (\<exists>base. getitem c1 ''base_collider'' = Inr base
          \<and> (\<forall>i \<in> set (kept_indices fp s). case combination s i of (track, qx, qy) \<Rightarrow>
                getpath (resolved_configuration base (leaf track qx qy))
                    [''parameters_scanned'', ''group_2'', ''qx''] = Inr (PFloat qx)
              \<and> getpath (resolved_configuration base (leaf track qx qy))
                    [''parameters_scanned'', ''group_2'', ''qy''] = Inr (PFloat qy)
              \<and> (\<forall>k p. k \<notin> {''parameters_scanned'', ''particle_file'', ''collider_file'',
                             ''n_turns'', ''delta_max'', ''log_file''} \<longrightarrow>
                    getpath (resolved_configuration base (leaf track qx qy)) (k # p)
                      = getpath (node_configuration base) (k # p))
              \<and> (\<forall>beam \<in> {''lhcb1'', ''lhcb2''}.
                    getpath (resolved_configuration base (leaf track qx qy))
                        [''config_collider'', ''config_knobs_and_tuning'', ''qx'', beam]
                      = Inr (PFloat 62.31)
                  \<and> getpath (resolved_configuration base (leaf track qx qy))
                        [''config_collider'', ''config_knobs_and_tuning'', ''qy'', beam]
                      = Inr (PFloat 60.32))))"
proof -
  let ?cp = "expected_config_particles s" and ?cc = "expected_config_collider s beambeam"
  let ?base = "PDict [(''config_particles'', ?cp), (''config_collider'', ?cc),
      (''children'', PDict (expected_leaves fp s))]"
  have c0: "c0 = base_tree ?cp ?cc []"
    using assms(1) by (simp add: first_generation_tree)
  have c1: "c1 = base_tree ?cp ?cc (expected_leaves fp s)"
    using assms(2) unfolding c0 by (simp add: second_generation_tree)
  have frame: "getpath c1 (''base_collider'' # k # p) = getpath c0 (''base_collider'' # k # p)"
    if "k \<noteq> ''children''" for k p
    using assms(2) that by (rule second_generation_frame)
  have cc: "getpath c1 (''base_collider'' # ''config_collider'' # p) = getpath ?cc p" for p
    unfolding c1 base_tree_def by (simp add: and_then_def)
  have tunes: "getpath c1 [''base_collider'', ''config_collider'', ''config_knobs_and_tuning'', ''qx'', beam]
              = Inr (PFloat 62.31)
          \<and> getpath c1 [''base_collider'', ''config_collider'', ''config_knobs_and_tuning'', ''qy'', beam]
              = Inr (PFloat 60.32)" if "beam \<in> {''lhcb1'', ''lhcb2''}" for beam
    unfolding cc using base_tunes [OF that] by simp
  have leafs: "getpath c1 [''base_collider'', ''children'', xtrack_key i] = Inr (leaf track qx qy)"
    if "i \<in> set (kept_indices fp s)" "combination s i = (track, qx, qy)" for i track qx qy
    unfolding c1 base_tree_def using map_of_expected_leaves [OF that(1)] that(2)
    by (simp add: and_then_def leaf_at_def)
  have base: "getitem c1 ''base_collider'' = Inr ?base"
    unfolding c1 base_tree_def by simp
  have nb: "node_configuration ?base = PDict [(''config_particles'', ?cp), (''config_collider'', ?cc)]"
    by (rule node_configuration_base)
  have res_base: "getpath (resolved_configuration ?base (leaf track qx qy)) (k # p)
                      = getpath (node_configuration ?base) (k # p)"
    if "k \<notin> {''parameters_scanned'', ''particle_file'', ''collider_file'',
                             ''n_turns'', ''delta_max'', ''log_file''}" for track qx qy k p
    unfolding nb using that by (rule resolved_leaf(3))
  have res_tunes: "getpath (resolved_configuration ?base (leaf track qx qy))
                        [''config_collider'', ''config_knobs_and_tuning'', ''qx'', beam]
                      = Inr (PFloat 62.31)
                  \<and> getpath (resolved_configuration ?base (leaf track qx qy))
                        [''config_collider'', ''config_knobs_and_tuning'', ''qy'', beam]
                      = Inr (PFloat 60.32)" if "beam \<in> {''lhcb1'', ''lhcb2''}" for track qx qy beam
  proof -
    have rc: "getpath (resolved_configuration ?base (leaf track qx qy)) (''config_collider'' # p)
            = getpath ?cc p" for p
      using res_base [of "''config_collider''" track qx qy p] unfolding nb
      by (simp add: and_then_def)
    show ?thesis by (simp only: rc base_tunes [OF that] simp_thms)
  qed
  have p1: "\<forall>k p. k \<noteq> ''children'' \<longrightarrow>
            getpath c1 (''base_collider'' # k # p) = getpath c0 (''base_collider'' # k # p)"
    using frame by (intro allI impI)
  have p2: "\<forall>beam \<in> {''lhcb1'', ''lhcb2''}.
            getpath c1 [''base_collider'', ''config_collider'', ''config_knobs_and_tuning'', ''qx'', beam]
              = Inr (PFloat 62.31)
          \<and> getpath c1 [''base_collider'', ''config_collider'', ''config_knobs_and_tuning'', ''qy'', beam]
              = Inr (PFloat 60.32)"
    using tunes by (intro ballI)
  have p3: "\<forall>i \<in> set (kept_indices fp s). case combination s i of (track, qx, qy) \<Rightarrow>
            getpath c1 [''base_collider'', ''children'', xtrack_key i] = Inr (leaf track qx qy)
          \<and> getitem (leaf track qx qy) ''parameters_scanned''
              = Inr (PDict [(''group_2'', PDict [(''qx'', PFloat qx), (''qy'', PFloat qy)])])
          \<and> (\<forall>k qx' qy'. k \<noteq> ''parameters_scanned'' \<longrightarrow>
                getitem (leaf track qx qy) k = getitem (leaf track qx' qy') k)"
  proof
    fix i assume i: "i \<in> set (kept_indices fp s)"
    obtain track qx qy where c: "combination s i = (track, qx, qy)"
      by (cases "combination s i") auto
    show "case combination s i of (track, qx, qy) \<Rightarrow>
            getpath c1 [''base_collider'', ''children'', xtrack_key i] = Inr (leaf track qx qy)
          \<and> getitem (leaf track qx qy) ''parameters_scanned''
              = Inr (PDict [(''group_2'', PDict [(''qx'', PFloat qx), (''qy'', PFloat qy)])])
          \<and> (\<forall>k qx' qy'. k \<noteq> ''parameters_scanned'' \<longrightarrow>
                getitem (leaf track qx qy) k = getitem (leaf track qx' qy') k)"
      unfolding c prod.case
    proof (intro conjI allI impI)
      show "getpath c1 [''base_collider'', ''children'', xtrack_key i] = Inr (leaf track qx qy)"
        by (rule leafs [OF i c])
      show "getitem (leaf track qx qy) ''parameters_scanned''
              = Inr (PDict [(''group_2'', PDict [(''qx'', PFloat qx), (''qy'', PFloat qy)])])"
        by (rule leaf_scanned)
      fix k qx' qy' assume "k \<noteq> ''parameters_scanned''"
      then show "getitem (leaf track qx qy) k = getitem (leaf track qx' qy') k"
        by (rule leaf_other_keys)
    qed
  qed
  have p4: "\<forall>i \<in> set (kept_indices fp s). case combination s i of (track, qx, qy) \<Rightarrow>
                getpath (resolved_configuration ?base (leaf track qx qy))
                    [''parameters_scanned'', ''group_2'', ''qx''] = Inr (PFloat qx)
              \<and> getpath (resolved_configuration ?base (leaf track qx qy))
                    [''parameters_scanned'', ''group_2'', ''qy''] = Inr (PFloat qy)
              \<and> (\<forall>k p. k \<notin> {''parameters_scanned'', ''particle_file'', ''collider_file'',
                             ''n_turns'', ''delta_max'', ''log_file''} \<longrightarrow>
                    getpath (resolved_configuration ?base (leaf track qx qy)) (k # p)
                      = getpath (node_configuration ?base) (k # p))
              \<and> (\<forall>beam \<in> {''lhcb1'', ''lhcb2''}.
                    getpath (resolved_configuration ?base (leaf track qx qy))
                        [''config_collider'', ''config_knobs_and_tuning'', ''qx'', beam]
                      = Inr (PFloat 62.31)
                  \<and> getpath (resolved_configuration ?base (leaf track qx qy))
                        [''config_collider'', ''config_knobs_and_tuning'', ''qy'', beam]
                      = Inr (PFloat 60.32))"
  proof
    fix i assume i: "i \<in> set (kept_indices fp s)"
    obtain track qx qy where c: "combination s i = (track, qx, qy)"
      by (cases "combination s i") auto
    show "case combination s i of (track, qx, qy) \<Rightarrow>
                getpath (resolved_configuration ?base (leaf track qx qy))
                    [''parameters_scanned'', ''group_2'', ''qx''] = Inr (PFloat qx)
              \<and> getpath (resolved_configuration ?base (leaf track qx qy))
                    [''parameters_scanned'', ''group_2'', ''qy''] = Inr (PFloat qy)
              \<and> (\<forall>k p. k \<notin> {''parameters_scanned'', ''particle_file'', ''collider_file'',
                             ''n_turns'', ''delta_max'', ''log_file''} \<longrightarrow>
                    getpath (resolved_configuration ?base (leaf track qx qy)) (k # p)
                      = getpath (node_configuration ?base) (k # p))
              \<and> (\<forall>beam \<in> {''lhcb1'', ''lhcb2''}.
                    getpath (resolved_configuration ?base (leaf track qx qy))
                        [''config_collider'', ''config_knobs_and_tuning'', ''qx'', beam]
                      = Inr (PFloat 62.31)
                  \<and> getpath (resolved_configuration ?base (leaf track qx qy))
                        [''config_collider'', ''config_knobs_and_tuning'', ''qy'', beam]
                      = Inr (PFloat 60.32))"
      unfolding c prod.case
    proof (intro conjI allI impI ballI)
      show "getpath (resolved_configuration ?base (leaf track qx qy))
                    [''parameters_scanned'', ''group_2'', ''qx''] = Inr (PFloat qx)"
        by (rule resolved_leaf(1))
      show "getpath (resolved_configuration ?base (leaf track qx qy))
                    [''parameters_scanned'', ''group_2'', ''qy''] = Inr (PFloat qy)"
        by (rule resolved_leaf(2))
    next
      fix k p assume "k \<notin> {''parameters_scanned'', ''particle_file'', ''collider_file'',
                             ''n_turns'', ''delta_max'', ''log_file''}"
      then show "getpath (resolved_configuration ?base (leaf track qx qy)) (k # p)
                      = getpath (node_configuration ?base) (k # p)"
        by (rule res_base)
    next
      fix beam assume b: "beam \<in> {''lhcb1'', ''lhcb2''}"
      show "getpath (resolved_configuration ?base (leaf track qx qy))
                        [''config_collider'', ''config_knobs_and_tuning'', ''qx'', beam]
                      = Inr (PFloat 62.31)"
        using res_tunes [OF b] by (rule conjunct1)
      show "getpath (resolved_configuration ?base (leaf track qx qy))
                        [''config_collider'', ''config_knobs_and_tuning'', ''qy'', beam]
                      = Inr (PFloat 60.32)"
        using res_tunes [OF b] by (rule conjunct2)
    qed
  qed
  from base p4 have p5: "\<exists>base. getitem c1 ''base_collider'' = Inr base
          \<and> (\<forall>i \<in> set (kept_indices fp s). case combination s i of (track, qx, qy) \<Rightarrow>
                getpath (resolved_configuration base (leaf track qx qy))
                    [''parameters_scanned'', ''group_2'', ''qx''] = Inr (PFloat qx)
              \<and> getpath (resolved_configuration base (leaf track qx qy))
                    [''parameters_scanned'', ''group_2'', ''qy''] = Inr (PFloat qy)
              \<and> (\<forall>k p. k \<notin> {''parameters_scanned'', ''particle_file'', ''collider_file'',
                             ''n_turns'', ''delta_max'', ''log_file''} \<longrightarrow>
                    getpath (resolved_configuration base (leaf track qx qy)) (k # p)
                      = getpath (node_configuration base) (k # p))
              \<and> (\<forall>beam \<in> {''lhcb1'', ''lhcb2''}.
                    getpath (resolved_configuration base (leaf track qx qy))
                        [''config_collider'', ''config_knobs_and_tuning'', ''qx'', beam]
                      = Inr (PFloat 62.31)
                  \<and> getpath (resolved_configuration base (leaf track qx qy))
                        [''config_collider'', ''config_knobs_and_tuning'', ''qy'', beam]
                      = Inr (PFloat 60.32)))"
    by (intro exI [where x = "?base"] conjI)
  show ?thesis
    by (rule conjI [OF p1 conjI [OF p2 conjI [OF p3 p5]]])
qed


theorem leaves_leave_base_configuration_witness:
  "first_generation small_spec example_beambeam
     = Inr (base_tree (expected_config_particles small_spec)
              (expected_config_collider small_spec example_beambeam) [])
   \<and> second_generation exact_arith small_spec (base_tree (expected_config_particles small_spec)
              (expected_config_collider small_spec example_beambeam) [])
     = Inr (base_tree (expected_config_particles small_spec)
              (expected_config_collider small_spec example_beambeam)
              [(''xtrack_0001'', leaf 0 62.305 60.310)])
   \<and> getpath (base_tree (expected_config_particles small_spec)
              (expected_config_collider small_spec example_beambeam)
              [(''xtrack_0001'', leaf 0 62.305 60.310)])
         [''base_collider'', ''config_collider'', ''config_knobs_and_tuning'', ''qx'', ''lhcb1'']
       = Inr (PFloat 62.31)
   \<and> getpath (base_tree (expected_config_particles small_spec)
              (expected_config_collider small_spec example_beambeam)
              [(''xtrack_0001'', leaf 0 62.305 60.310)])
         [''base_collider'', ''config_collider'', ''config_knobs_and_tuning'', ''qy'', ''lhcb1'']
       = Inr (PFloat 60.32)"
proof -
  let ?c0 = "base_tree (expected_config_particles small_spec)
              (expected_config_collider small_spec example_beambeam) []"
  let ?c1 = "base_tree (expected_config_particles small_spec)
              (expected_config_collider small_spec example_beambeam)
              [(''xtrack_0001'', leaf 0 62.305 60.310)]"
  have h1: "first_generation small_spec example_beambeam = Inr ?c0"
    by (rule first_generation_tree)
  have h2: "second_generation exact_arith small_spec ?c0 = Inr ?c1"
    using second_generation_tree [of exact_arith small_spec] unfolding expected_leaves_small .
  have b: "''lhcb1'' \<in> {''lhcb1'', ''lhcb2''}" by simp
  have "\<forall>beam \<in> {''lhcb1'', ''lhcb2''}.
            getpath ?c1 [''base_collider'', ''config_collider'', ''config_knobs_and_tuning'', ''qx'', beam]
              = Inr (PFloat 62.31)
          \<and> getpath ?c1 [''base_collider'', ''config_collider'', ''config_knobs_and_tuning'', ''qy'', beam]
              = Inr (PFloat 60.32)"
    by (rule conjunct1 [OF conjunct2 [OF leaves_leave_base_configuration [OF h1 h2]]])
  note t = bspec [OF this b]
  show ?thesis by (rule conjI [OF h1 conjI [OF h2 t]])
qed

lemma then_run_def:
  "then_run m f =
     (case snd m of
        Inl e \<Rightarrow> (fst m, Inl e)
      | Inr x \<Rightarrow> (fst m @ fst (f x), snd (f x)))"
  by (cases m; cases "snd m") (auto split: prod.splits)

declare then_run.simps [simp del]

lemma fst_lift [simp]: "fst (lift m) = []" and snd_lift [simp]: "snd (lift m) = m"
  by (simp_all add: lift_def)

lemma fst_emit [simp]: "fst (emit e) = [e]" and snd_emit [simp]: "snd (emit e) = Inr ()"
  by (simp_all add: emit_def)

lemma fst_call [simp]: "fst (call ext name) = [Call name]"
  by (simp add: call_def)

lemma then_run_Inl: "snd m = Inl e \<Longrightarrow> then_run m f = (fst m, Inl e)"
  by (simp add: then_run_def)

lemma then_run_Inr: "snd m = Inr x \<Longrightarrow> then_run m f = (fst m @ fst (f x), snd (f x))"
  by (simp add: then_run_def)

lemma then_run_succeeds:
  assumes "snd (then_run m f) = Inr y"
  obtains x where "snd m = Inr x" and "snd (f x) = Inr y"
    and "fst (then_run m f) = fst m @ fst (f x)"
  using assms by (cases "snd m") (auto simp: then_run_def)

lemma tags_append [simp]: "tags (a @ b) = tags a @ tags b"
  by (simp add: tags_def)

lemma files_written_append [simp]: "files_written (a @ b) = files_written a @ files_written b"
  by (simp add: files_written_def)

lemma tags_simps [simp]:
  "tags [] = []" "tags (Tag f st # tr) = Tag f st # tags tr"
  "tags (MakeDirs p # tr) = tags tr" "tags (WriteFile p # tr) = tags tr"
  "tags (Remove p # tr) = tags tr" "tags (Call n # tr) = tags tr"
  by (simp_all add: tags_def)

lemma files_written_simps [simp]:
  "files_written [] = []" "files_written (Tag f st # tr) = files_written tr"
  "files_written (MakeDirs p # tr) = files_written tr"
  "files_written (WriteFile p # tr) = p # files_written tr"
  "files_written (Remove p # tr) = files_written tr"
  "files_written (Call n # tr) = files_written tr"
  by (simp_all add: files_written_def)

text \<open>A run all of whose events satisfy a property.\<close>

lemma all_events_then_run:
  "list_all Q (fst m) \<Longrightarrow> (\<And>x. list_all Q (fst (f x))) \<Longrightarrow> list_all Q (fst (then_run m f))"
  by (cases "snd m") (simp_all add: then_run_def)

lemma all_events_for_each:
  "(\<And>x. list_all Q (fst (body x))) \<Longrightarrow> list_all Q (fst (for_each xs body))"
  by (induction xs) (simp_all add: all_events_then_run)

lemma all_events_if:
  "list_all Q (fst a) \<Longrightarrow> list_all Q (fst b) \<Longrightarrow> list_all Q (fst (if c then a else b))"
  by simp

lemma all_events_lift: "list_all Q (fst (lift m))"
  by simp

lemma no_tag_tags: "list_all no_tag tr \<Longrightarrow> tags tr = []"
  by (induction tr) (auto simp: no_tag_def split: event.splits)


lemmas all_events_intros =
  all_events_then_run all_events_for_each all_events_if all_events_lift

lemma machine_tuning_events:
  "Q (Call ''xm.machine_tuning'') \<Longrightarrow> list_all Q (fst (machine_tuning ext conf b line_name))"
  unfolding machine_tuning_def by (intro all_events_intros) simp_all

lemma build_collider_events:
  assumes "\<And>n. Q (Call n)" "\<And>p. Q (Remove p)"
  shows "list_all Q (fst (build_collider ext cc))"
  unfolding build_collider_def by (intro all_events_intros) (simp_all add: assms)

lemma install_beambeam_events:
  assumes "\<And>n. Q (Call n)"
  shows "list_all Q (fst (install_beambeam ext cc))"
  unfolding install_beambeam_def by (intro all_events_intros) (simp_all add: assms)

lemma knobs_and_tuning_events:
  assumes "\<And>n. Q (Call n)"
  shows "list_all Q (fst (knobs_and_tuning ext cc))"
proof -
  have "list_all Q (fst (case ks of
                 PDict items \<Rightarrow> for_each items (\<lambda>(kk, vv). call ext (''collider.vars '' @ kk))
               | _ \<Rightarrow> lift (Inl AttributeError)))" for ks
    by (cases ks) (auto intro!: all_events_for_each simp: assms)
  then show ?thesis
    unfolding knobs_and_tuning_def
    by (intro all_events_then_run all_events_for_each machine_tuning_events) (simp_all add: assms)
qed

lemma levelling_events:
  assumes "\<And>n. Q (Call n)"
  shows "list_all Q (fst (levelling ext cc))"
  unfolding levelling_def
  by (intro all_events_intros machine_tuning_events) (simp_all add: assms)

lemma no_tag_simps [simp]: "no_tag (Call n)" "no_tag (Remove p)" "no_tag (MakeDirs p)"
  "no_tag (WriteFile p)" "\<not> no_tag (Tag f st)"
  by (simp_all add: no_tag_def)

lemma no_write_simps [simp]: "no_write (Call n)" "no_write (Remove p)" "no_write (MakeDirs p)"
  "no_write (Tag f st)" "\<not> no_write (WriteFile p)"
  by (simp_all add: no_write_def)

lemma particles_no_tag: "list_all no_tag (fst (build_particle_distribution ext cp))"
  unfolding build_particle_distribution_def by (intro all_events_intros) simp_all

lemma correction_no_tag: "list_all no_tag (fst (generate_correction_files ext))"
  unfolding generate_correction_files_def by (intro all_events_intros) simp_all

lemma job_work_no_tag: "list_all no_tag (fst (job_work ext cp cc))"
  unfolding job_work_def
  by (intro all_events_then_run particles_no_tag correction_no_tag build_collider_events
      install_beambeam_events knobs_and_tuning_events levelling_events) simp_all

lemma job_work_tags: "tags (fst (job_work ext cp cc)) = []"
  by (rule no_tag_tags [OF job_work_no_tag])

lemma start_logging_dict:
  "start_logging (PDict d) =
     (case map_of d ''log_file'' of
        None \<Rightarrow> ([], Inr ())
      | Some f \<Rightarrow> ([Tag f ''started''], Inr ()))"
  by (simp add: start_logging_def then_run_def lift_def emit_def split: option.splits)

lemma save_and_log_cases:
  "save_and_log ext configuration =
     (case ext ''collider.to_json'' of
        Some e \<Rightarrow> ([MakeDirs ''collider'', Call ''collider.to_json''], Inl e)
      | None \<Rightarrow>
          (case getitem configuration ''log_file'' of
             Inl e \<Rightarrow> ([MakeDirs ''collider'', Call ''collider.to_json'',
                         WriteFile ''collider/collider.json''], Inl e)
           | Inr f \<Rightarrow> ([MakeDirs ''collider'', Call ''collider.to_json'',
                         WriteFile ''collider/collider.json'', Tag f ''completed''], Inr ())))"
  by (simp add: save_and_log_def then_run_def lift_def emit_def call_def
      split: option.splits sum.splits)

lemma getitem_Inr_dict: "getitem c k = Inr v \<Longrightarrow> \<exists>d. c = PDict d \<and> map_of d k = Some v"
  by (cases c) (auto split: option.splits)

text \<open>
  C6, amended. The job script of the repository records \<^verbatim>\<open>started\<close> as its first event
  when its configuration names a log file, and \<^verbatim>\<open>completed\<close> as its last event when it
  runs to its end: a run that returns is \<^verbatim>\<open>started\<close>, then work without any tag, then
  \<^verbatim>\<open>completed\<close>. A run that raises records no terminal tag: its only tag, if any, is
  the \<^verbatim>\<open>started\<close> it began with (the script has no handler that would record
  \<^verbatim>\<open>failed\<close>).
\<close>

theorem job_tags:
  assumes "build_distr_and_collider ext configuration = (trace, outcome)"
  shows "(outcome = Inr () \<longrightarrow>
            (\<exists>log_file work. getitem configuration ''log_file'' = Inr log_file
               \<and> trace = Tag log_file ''started'' # work @ [Tag log_file ''completed'']
               \<and> tags work = []))
       \<and> (\<forall>e. outcome = Inl e \<longrightarrow>
            (tags trace = []
             \<or> (\<exists>log_file work. getitem configuration ''log_file'' = Inr log_file
                   \<and> trace = Tag log_file ''started'' # work
                   \<and> tags work = [])))"
proof (cases "getitem configuration ''config_particles''")
  case (Inl e)
  then have "trace = []" "outcome = Inl e"
    using assms by (simp_all add: build_distr_and_collider_def then_run_def)
  then show ?thesis by simp
next
  case cp: (Inr cp)
  then obtain d where d: "configuration = PDict d"
    using getitem_Inr_dict by blast
  show ?thesis
  proof (cases "getitem configuration ''config_collider''")
    case (Inl e)
    then have "trace = []" "outcome = Inl e"
      using assms cp by (simp_all add: build_distr_and_collider_def then_run_def)
    then show ?thesis by simp
  next
    case cc: (Inr cc)
    let ?w = "job_work ext cp cc"
    let ?s = "save_and_log ext configuration"
    have q: "tags (fst ?w) = []" by (rule job_work_tags)
    have job: "build_distr_and_collider ext configuration
                 = then_run (start_logging configuration) (\<lambda>_. then_run ?w (\<lambda>_. ?s))"
      using cp cc by (simp add: build_distr_and_collider_def then_run_def)
    show ?thesis
    proof (cases "map_of d ''log_file''")
      case None
      then have l: "getitem configuration ''log_file'' = Inl (KeyError ''log_file'')"
        by (simp add: d)
      have sl: "start_logging configuration = ([], Inr ())"
        using None by (simp add: d start_logging_dict)
      have "snd ?s \<noteq> Inr ()" "tags (fst ?s) = []"
        unfolding save_and_log_cases l by (simp_all split: option.splits)
      then have "outcome \<noteq> Inr ()" "tags trace = []"
        using assms q unfolding job sl by (auto simp: then_run_def split: sum.splits)
      then show ?thesis by (cases outcome) auto
    next
      case (Some f)
      then have l: "getitem configuration ''log_file'' = Inr f"
        by (simp add: d)
      have sl: "start_logging configuration = ([Tag f ''started''], Inr ())"
        using Some by (simp add: d start_logging_dict)
      have t: "(trace, outcome) = ([Tag f ''started''] @ fst (then_run ?w (\<lambda>_. ?s)),
                  snd (then_run ?w (\<lambda>_. ?s)))"
        using assms unfolding job sl by (simp add: then_run_def)
      show ?thesis
      proof (cases outcome)
        case (Inl e)
        have "tags (fst (then_run ?w (\<lambda>_. ?s))) = []"
        proof (cases "snd ?w")
          case w: (Inl e')
          then show ?thesis using q by (simp add: then_run_def)
        next
          case w: (Inr u)
          then have "snd ?s = Inl e" using t Inl by (simp add: then_run_def)
          then have "tags (fst ?s) = []"
            unfolding save_and_log_cases l by (simp split: option.splits)
          then show ?thesis using q w by (simp add: then_run_def)
        qed
        then have "\<exists>work. trace = Tag f ''started'' # work \<and> tags work = []"
          using t by simp
        then show ?thesis using Inl l by auto
      next
        case (Inr u)
        then have ok: "snd (then_run ?w (\<lambda>_. ?s)) = Inr ()" using t by simp
        then obtain x where w: "snd ?w = Inr x" and s: "snd ?s = Inr ()"
          and tr: "fst (then_run ?w (\<lambda>_. ?s)) = fst ?w @ fst ?s"
          by (rule then_run_succeeds)
        have "fst ?s = [MakeDirs ''collider'', Call ''collider.to_json'',
                         WriteFile ''collider/collider.json''] @ [Tag f ''completed'']"
          using s unfolding save_and_log_cases l by (simp split: option.splits)
        then have "trace = Tag f ''started'' # (fst ?w @ [MakeDirs ''collider'',
            Call ''collider.to_json'', WriteFile ''collider/collider.json'']) @ [Tag f ''completed'']"
          using t tr by simp
        moreover have "tags (fst ?w @ [MakeDirs ''collider'',
            Call ''collider.to_json'', WriteFile ''collider/collider.json'']) = []"
          using q by simp
        ultimately show ?thesis using Inr l by blast
      qed
    qed
  qed
qed

lemma example_job_run:
  "build_distr_and_collider (\<lambda>name. None) (example_job_configuration small_spec) =
   ([Tag (PStr ''tree_maker.log'') ''started'', MakeDirs ''particles'',
     Call ''pd.DataFrame.to_parquet'', WriteFile ''particles/00.parquet'',
     Call ''generate_orbit_correction_setup'', MakeDirs ''correction'',
     WriteFile ''correction/corr_co_lhcb1.json'', Call ''json.dump'',
     WriteFile ''correction/corr_co_lhcb2.json'', Call ''json.dump'',
     Call ''xm.make_mad_environment'', Call ''Madx'', Call ''Madx'',
     Call ''ost.build_sequence'', Call ''ost.build_sequence'',
     Call ''ost.apply_optics'', Call ''xlhc.build_xsuite_collider'',
     Remove ''mad_collider.log'', Remove ''mad_b4.log'', Remove ''temp'',
     Remove ''errors'', Remove ''acc-models-lhc'',
     Call ''collider.install_beambeam_interactions'',
     Call ''collider.build_trackers'', Call ''collider.vars on_x1'',
     Call ''collider.vars on_sep1'', Call ''xm.machine_tuning'',
     Call ''xm.machine_tuning'', Call ''xlhc.luminosity_leveling'',
     Call ''xm.machine_tuning'', Call ''xm.machine_tuning'',
     MakeDirs ''collider'', Call ''collider.to_json'',
     WriteFile ''collider/collider.json'',
     Tag (PStr ''tree_maker.log'') ''completed''],
    Inr ())"
  by code_simp

lemma example_job_fails:
  "build_distr_and_collider (\<lambda>name. None)
       (example_job_configuration (default_spec\<lparr>n_split := 0\<rparr>))
     = ([Tag (PStr ''tree_maker.log'') ''started''], Inl ValueError)"
  by code_simp

text \<open>
  C6, as stated, fails on the job script: a run that raises ends with \<^verbatim>\<open>started\<close> as
  its only tag. Two such runs: the configuration the generator writes for \<^verbatim>\<open>n_split = 0\<close>
  (\<^verbatim>\<open>np.array_split\<close> raises), and a run in which MAD-X fails to start.
\<close>

theorem job_ends_without_terminal_tag:
  "build_distr_and_collider (\<lambda>name. None)
       (example_job_configuration (default_spec\<lparr>n_split := 0\<rparr>))
     = ([Tag (PStr ''tree_maker.log'') ''started''], Inl ValueError)
   \<and> build_distr_and_collider
       (\<lambda>name. if name = ''Madx'' then Some (ExternalError ''Madx'') else None)
       (example_job_configuration small_spec)
     = ([Tag (PStr ''tree_maker.log'') ''started'', MakeDirs ''particles'',
         Call ''pd.DataFrame.to_parquet'', WriteFile ''particles/00.parquet'',
         Call ''generate_orbit_correction_setup'', MakeDirs ''correction'',
         WriteFile ''correction/corr_co_lhcb1.json'', Call ''json.dump'',
         WriteFile ''correction/corr_co_lhcb2.json'', Call ''json.dump'',
         Call ''xm.make_mad_environment'', Call ''Madx''],
        Inl (ExternalError ''Madx''))"
  by code_simp

theorem job_tags_witness:
  "build_distr_and_collider (\<lambda>name. None) (example_job_configuration small_spec)
     = (Tag (PStr ''tree_maker.log'') ''started'' #
        [MakeDirs ''particles'',
         Call ''pd.DataFrame.to_parquet'', WriteFile ''particles/00.parquet'',
         Call ''generate_orbit_correction_setup'', MakeDirs ''correction'',
         WriteFile ''correction/corr_co_lhcb1.json'', Call ''json.dump'',
         WriteFile ''correction/corr_co_lhcb2.json'', Call ''json.dump'',
         Call ''xm.make_mad_environment'', Call ''Madx'', Call ''Madx'',
         Call ''ost.build_sequence'', Call ''ost.build_sequence'',
         Call ''ost.apply_optics'', Call ''xlhc.build_xsuite_collider'',
         Remove ''mad_collider.log'', Remove ''mad_b4.log'', Remove ''temp'',
         Remove ''errors'', Remove ''acc-models-lhc'',
         Call ''collider.install_beambeam_interactions'',
         Call ''collider.build_trackers'', Call ''collider.vars on_x1'',
         Call ''collider.vars on_sep1'', Call ''xm.machine_tuning'',
         Call ''xm.machine_tuning'', Call ''xlhc.luminosity_leveling'',
         Call ''xm.machine_tuning'', Call ''xm.machine_tuning'',
         MakeDirs ''collider'', Call ''collider.to_json'',
         WriteFile ''collider/collider.json''] @ [Tag (PStr ''tree_maker.log'') ''completed''],
        Inr ())
   \<and> getitem (example_job_configuration small_spec) ''log_file'' = Inr (PStr ''tree_maker.log'')
   \<and> build_distr_and_collider (\<lambda>name. None)
       (example_job_configuration (default_spec\<lparr>n_split := 0\<rparr>))
     = ([Tag (PStr ''tree_maker.log'') ''started''], Inl ValueError)
   \<and> tags [Tag (PStr ''tree_maker.log'') ''started''] = [Tag (PStr ''tree_maker.log'') ''started'']"
proof -
  have l: "getitem (example_job_configuration small_spec) ''log_file'' = Inr (PStr ''tree_maker.log'')"
    by (simp add: example_job_configuration_def)
  note ok = job_tags [OF example_job_run]
  note ko = job_tags [OF example_job_fails]
  show ?thesis using ok ko example_job_run example_job_fails l by simp
qed

lemma py_in_agree:
  "map_of d1 k = map_of d2 k \<Longrightarrow> py_in k (PDict d1) = py_in k (PDict d2)"
  by simp

lemma getitem_agree:
  "map_of d1 k = map_of d2 k \<Longrightarrow> getitem (PDict d1) k = getitem (PDict d2) k"
  by simp

lemma leveling_condition_agree:
  assumes "\<forall>k. k \<noteq> ''skip_leveling_base_collider'' \<longrightarrow> map_of d1 k = map_of d2 k"
  shows "leveling_condition (PDict d1) = leveling_condition (PDict d2)"
proof -
  have 1: "map_of d1 ''config_lumi_leveling'' = map_of d2 ''config_lumi_leveling''"
    and 2: "map_of d1 ''skip_leveling'' = map_of d2 ''skip_leveling''"
    using assms by simp_all
  show ?thesis
    unfolding leveling_condition_def py_in_agree [OF 1] getitem_agree [OF 2] ..
qed

lemma levelling_agree:
  assumes "\<forall>k. k \<noteq> ''skip_leveling_base_collider'' \<longrightarrow> map_of d1 k = map_of d2 k"
  shows "levelling ext (PDict d1) = levelling ext (PDict d2)"
proof -
  have 1: "map_of d1 ''config_lumi_leveling'' = map_of d2 ''config_lumi_leveling''"
    and 2: "map_of d1 ''config_knobs_and_tuning'' = map_of d2 ''config_knobs_and_tuning''"
    using assms by simp_all
  show ?thesis
    unfolding levelling_def leveling_condition_agree [OF assms]
      getitem_agree [OF 1] getitem_agree [OF 2] ..
qed

text \<open>
  C10. Two collider configurations that agree on every key but
  \<^verbatim>\<open>skip_leveling_base_collider\<close> give the same leveling decision, and the same run of the
  whole leveling section: the job reads \<^verbatim>\<open>config_lumi_leveling\<close> and \<^verbatim>\<open>skip_leveling\<close>
  there, never the generator's flag. The generator writes its flag under
  \<^verbatim>\<open>skip_leveling_base_collider\<close> and writes no key \<^verbatim>\<open>skip_leveling\<close>.
\<close>

theorem leveling_ignores_generator_flag:
  assumes "\<forall>k. k \<noteq> ''skip_leveling_base_collider'' \<longrightarrow> map_of d1 k = map_of d2 k"
  shows "leveling_condition (PDict d1) = leveling_condition (PDict d2)
       \<and> levelling ext (PDict d1) = levelling ext (PDict d2)
       \<and> (\<forall>s beambeam children. first_generation s beambeam = Inr children \<longrightarrow>
             getpath children [''base_collider'', ''config_collider'', ''skip_leveling_base_collider'']
               = Inr (PBool (skip_leveling_base_collider s))
           \<and> getpath children [''base_collider'', ''config_collider'', ''skip_leveling'']
               = Inl (KeyError ''skip_leveling''))"
proof -
  have "getpath children [''base_collider'', ''config_collider'', ''skip_leveling_base_collider'']
               = Inr (PBool (skip_leveling_base_collider s))
           \<and> getpath children [''base_collider'', ''config_collider'', ''skip_leveling'']
               = Inl (KeyError ''skip_leveling'')"
    if "first_generation s beambeam = Inr children" for s beambeam children
  proof -
    have "children = base_tree (expected_config_particles s) (expected_config_collider s beambeam) []"
      using that by (simp add: first_generation_tree)
    then show ?thesis
      by (simp add: base_tree_def expected_config_collider_def and_then_def)
  qed
  then show ?thesis
    using leveling_condition_agree [OF assms] levelling_agree [OF assms] by blast
qed

theorem leveling_ignores_generator_flag_witness:
  "leveling_condition (PDict [(''skip_leveling'', PBool False),
         (''skip_leveling_base_collider'', PBool True), (''config_lumi_leveling'', PDict [])])
       = Inr True
   \<and> leveling_condition (PDict [(''skip_leveling'', PBool False),
         (''skip_leveling_base_collider'', PBool False), (''config_lumi_leveling'', PDict [])])
       = Inr True"
proof -
  have a: "\<forall>k. k \<noteq> ''skip_leveling_base_collider'' \<longrightarrow>
      map_of [(''skip_leveling'', PBool False), (''skip_leveling_base_collider'', PBool True),
              (''config_lumi_leveling'', PDict [])] k
    = map_of [(''skip_leveling'', PBool False), (''skip_leveling_base_collider'', PBool False),
              (''config_lumi_leveling'', PDict [])] k"
    by simp
  have b: "leveling_condition (PDict [(''skip_leveling'', PBool False),
         (''skip_leveling_base_collider'', PBool True), (''config_lumi_leveling'', PDict [])])
       = Inr True"
    by (simp add: leveling_condition_def and_then_def)
  from leveling_ignores_generator_flag [OF a, of "\<lambda>n. None"] b
  have "leveling_condition (PDict [(''skip_leveling'', PBool False),
         (''skip_leveling_base_collider'', PBool False), (''config_lumi_leveling'', PDict [])])
       = Inr True"
    by simp
  with b show ?thesis by (rule conjI)
qed

lemma split_path_nonempty: "split_path p \<noteq> []"
  by (induction p) (auto split: list.splits)











lemma then_run_lift: "then_run (lift m) f = (case m of Inl e \<Rightarrow> ([], Inl e) | Inr x \<Rightarrow> f x)"
  by (cases m) (simp_all add: lift_def then_run.simps)


lemma then_run_call:
  "then_run (call ext n) f =
     (case ext n of None \<Rightarrow> (Call n # fst (f ()), snd (f ())) | Some e \<Rightarrow> ([Call n], Inl e))"
  by (simp add: call_def then_run.simps split: prod.splits option.splits)















lemma stat_materialized:
  "stat materialized [''scans'', study_name]
     = Inr (Dir [(''base_collider'', Dir
               [(''config.yaml'', File),
                (''xtrack_0001'', Dir [(''config.yaml'', File)])]),
             (''tree_maker_example_HL_tunescan.json'', File),
             (''tree_maker_example_HL_tunescan.log'', File)])"
  by (simp add: materialized_def study_name_def)

lemma enter_existing:
  assumes "stat cwd [''scans'', study_name] = Inr (Dir tree)"
  shows "enter_study_folder cwd = Inr cwd"
  using assms by (simp add: enter_study_folder_def os_path_exists_def os_chdir_def and_then_def)

lemma write_tree_existing:
  assumes "stat cwd [''scans'', study_name] = Inr (Dir tree)"
  shows "write_tree ext cwd =
     then_run (call ext ''initialize'') (\<lambda>_.
     then_run (call ext ''root.make_folders'') (\<lambda>_.
     then_run (call ext ''shutil.move tree_maker.json'') (\<lambda>_.
     call ext ''shutil.move tree_maker.log'')))"
  unfolding write_tree_def enter_existing [OF assms] by (simp add: then_run_lift)

lemma calls_raise:
  "snd (then_run (call ext n) f) = Inl e \<Longrightarrow> ext n = Some e \<or> snd (f ()) = Inl e"
  by (simp add: then_run_call split: option.splits)

lemma call_raises: "snd (call ext n) = Inl e \<Longrightarrow> ext n = Some e"
  by (simp add: call_def split: option.splits)

text \<open>
  C7, as stated, fails on the script. On the working directory left by a first run, a
  second run, with tree_maker raising nothing, is not refused: it leaves lines 293 to
  298 without an exception, calls tree_maker on the folder that holds the tree, and
  runs to its end.
\<close>

theorem existing_tree_not_refused:
  "enter_study_folder materialized = Inr materialized
   \<and> write_tree (\<lambda>name. None) materialized
       = ([Call ''initialize'', Call ''root.make_folders'',
           Call ''shutil.move tree_maker.json'', Call ''shutil.move tree_maker.log''], Inr ())"
proof -
  have e: "enter_study_folder materialized = Inr materialized"
    using stat_materialized by (rule enter_existing)
  have "write_tree (\<lambda>name. None) materialized
       = ([Call ''initialize'', Call ''root.make_folders'',
           Call ''shutil.move tree_maker.json'', Call ''shutil.move tree_maker.log''], Inr ())"
    unfolding write_tree_existing [OF stat_materialized]
    by (simp add: call_def then_run.simps)
  with e show ?thesis by (rule conjI)
qed

text \<open>
  C7, amended. When \<^verbatim>\<open>scans/<study_name>\<close> exists as a directory, a run of
  the generator is not refused. Lines 293 to 298 raise nothing and leave the files as
  they are: the directory is not made again, and it is entered. The first thing that
  follows is the call of tree_maker's \<^verbatim>\<open>initialize\<close>, as in a first run. An exception that
  ends the run is one raised by tree_maker or by the renaming of its log files, and when
  those raise nothing the script runs to its end. The script has no force flag and no
  conflict error; what tree_maker does to the tree already in the folder is outside
  the two scripts.
\<close>

theorem existing_target_is_entered:
  assumes "stat cwd [''scans'', study_name] = Inr (Dir tree)"
  shows "enter_study_folder cwd = Inr cwd
       \<and> (\<exists>rest. fst (write_tree ext cwd) = Call ''initialize'' # rest)
       \<and> (\<forall>e. snd (write_tree ext cwd) = Inl e \<longrightarrow> (\<exists>name. ext name = Some e))
       \<and> ((\<forall>name. ext name = None) \<longrightarrow> snd (write_tree ext cwd) = Inr ())"
proof -
  note w = write_tree_existing [OF assms]
  have 1: "enter_study_folder cwd = Inr cwd" using assms by (rule enter_existing)
  have 2: "\<exists>rest. fst (write_tree ext cwd) = Call ''initialize'' # rest"
    unfolding w by (simp add: then_run_call split: option.splits)
  have 3: "\<exists>name. ext name = Some e" if "snd (write_tree ext cwd) = Inl e" for e
    using that unfolding w by (blast dest: calls_raise call_raises)
  have 4: "snd (write_tree ext cwd) = Inr ()" if "\<forall>name. ext name = None"
    unfolding w using that by (simp add: call_def then_run.simps)
  show ?thesis using 1 2 3 4 by blast
qed

theorem existing_target_is_entered_witness:
  "stat materialized [''scans'', study_name]
     = Inr (Dir [(''base_collider'', Dir
               [(''config.yaml'', File),
                (''xtrack_0001'', Dir [(''config.yaml'', File)])]),
             (''tree_maker_example_HL_tunescan.json'', File),
             (''tree_maker_example_HL_tunescan.log'', File)])
   \<and> enter_study_folder materialized = Inr materialized
   \<and> snd (write_tree (\<lambda>name. None) materialized) = Inr ()"
proof -
  from existing_target_is_entered [OF stat_materialized, of "\<lambda>name. None"]
  have "enter_study_folder materialized = Inr materialized"
    and "snd (write_tree (\<lambda>name. None) materialized) = Inr ()"
    by simp_all
  with stat_materialized show ?thesis by (intro conjI)
qed

end
